theory Spec2Isabelle
  imports Main "HOL-Library.Word"
begin

unbundle bit_operations_syntax

section \<open>Machine types\<close>

text \<open>
  The firmware runs on a 32-bit little-endian microcontroller. C's fixed-width unsigned
  integers are words; signed fields are words read with \<open>sint\<close>. Where C promotes
  an operand to \<open>int\<close> before an operation, the model computes on \<open>int\<close>.
\<close>

type_synonym u8 = "8 word"
type_synonym u16 = "16 word"
type_synonym u32 = "32 word"
type_synonym u64 = "64 word"

section \<open>Datetime codec: \<open>to_bcd\<close> and \<open>add_bcd\<close>\<close>

text \<open>
  \<^verbatim>\<open>static uint8_t to_bcd(uint8_t val) { return ((val / 10) << 4) | (val % 10); }\<close>
  The result is truncated to eight bits on return, as the word operations do.
\<close>

definition to_bcd :: "u8 \<Rightarrow> u8" where
  "to_bcd val = push_bit 4 (val div 10) OR (val mod 10)"

text \<open>
  \<open>add_bcd\<close>: both nibble sums live in \<open>uint8_t\<close> variables, so every assignment
  truncates to eight bits. The test \<open>(high_nibble & 0x1F0) > 0x90\<close> is evaluated on
  the promoted value of the eight-bit variable.
\<close>

definition add_bcd :: "u8 \<Rightarrow> u8 \<Rightarrow> u8" where
  "add_bcd bcd1 bcd2 =
    (let low_nibble = (bcd1 AND 0x0F) + (bcd2 AND 0x0F);
         high_nibble = (bcd1 AND 0xF0) + (bcd2 AND 0xF0);
         low_nibble = (if low_nibble > 9 then low_nibble + 6 else low_nibble);
         high_nibble = high_nibble + (low_nibble AND 0xF0);
         low_nibble = low_nibble AND 0x0F;
         high_nibble = (if ((ucast high_nibble :: u32) AND 0x1F0) > 0x90
                        then high_nibble + 0x60 else high_nibble)
     in (high_nibble AND 0xF0) OR (low_nibble AND 0x0F))"

text \<open>
  The vocabulary of the BCD results: a byte is valid BCD when both nibbles are decimal
  digits, and then denotes the number \<open>10 * tens + units\<close>.
\<close>

definition valid_bcd :: "u8 \<Rightarrow> bool" where
  "valid_bcd b = (b AND 0x0F \<le> 9 \<and> drop_bit 4 b \<le> 9)"

definition bcd_value :: "u8 \<Rightarrow> nat" where
  "bcd_value b = 10 * unat (drop_bit 4 b) + unat (b AND 0x0F)"

section \<open>Raw memory\<close>

text \<open>
  The shared region is reached through raw pointers computed from
  \<open>memorySharedAddress\<close>, so it is modelled as byte-addressed memory over the 32-bit
  address space; address arithmetic wraps as \<open>uint32_t\<close> does, and two accesses alias
  exactly when their addresses are equal. A 32-bit store writes four bytes, least
  significant first (the microcontroller is little-endian).
\<close>

type_synonym memory = "u32 \<Rightarrow> u8"

definition store8 :: "memory \<Rightarrow> u32 \<Rightarrow> u8 \<Rightarrow> memory" where
  "store8 m a v = m(a := v)"

definition store32 :: "memory \<Rightarrow> u32 \<Rightarrow> u32 \<Rightarrow> memory" where
  "store32 m a v = m(a := ucast v, a + 1 := ucast (drop_bit 8 v),
                     a + 2 := ucast (drop_bit 16 v), a + 3 := ucast (drop_bit 24 v))"

definition load32 :: "memory \<Rightarrow> u32 \<Rightarrow> u32" where
  "load32 m a = ucast (m a) OR push_bit 8 (ucast (m (a + 1))) OR
                push_bit 16 (ucast (m (a + 2))) OR push_bit 24 (ucast (m (a + 3)))"

text \<open>
  Modelled from the spec: the macros \<open>WRITE_LONGWORD_RAW\<close>,
  \<open>WRITE_AND_SWAP_LONGWORD\<close>, \<open>SET_SHARED_VAR\<close> and \<open>GET_SHARED_VAR\<close> of
  \<open>memfunc.h\<close> are not among the sources. The spec has the fields "written as 32-bit
  longwords" at \<open>base + offset\<close>, and the shared variables as "indexed general-purpose
  slots" of four bytes with "no bounds validation". \<open>SWAP_LONGWORD\<close> exchanges the two
  16-bit halves, as the macro's name says; no result below depends on it.
\<close>

definition WRITE_LONGWORD_RAW :: "memory \<Rightarrow> u32 \<Rightarrow> u32 \<Rightarrow> u32 \<Rightarrow> memory" where
  "WRITE_LONGWORD_RAW m address offset data = store32 m (address + offset) data"

definition SWAP_LONGWORD :: "u32 \<Rightarrow> u32" where
  "SWAP_LONGWORD data = push_bit 16 data OR drop_bit 16 data"

definition WRITE_AND_SWAP_LONGWORD :: "memory \<Rightarrow> u32 \<Rightarrow> u32 \<Rightarrow> u32 \<Rightarrow> memory" where
  "WRITE_AND_SWAP_LONGWORD m address offset data =
     store32 m (address + offset) (SWAP_LONGWORD data)"

definition SET_SHARED_VAR :: "u32 \<Rightarrow> u32 \<Rightarrow> u32 \<Rightarrow> u32 \<Rightarrow> memory \<Rightarrow> memory" where
  "SET_SHARED_VAR idx val memory_shared_address memory_shared_variables_offset m =
     store32 m (memory_shared_address + memory_shared_variables_offset + idx * 4) val"

definition GET_SHARED_VAR :: "u32 \<Rightarrow> u32 \<Rightarrow> u32 \<Rightarrow> memory \<Rightarrow> u32" where
  "GET_SHARED_VAR idx memory_shared_address memory_shared_variables_offset m =
     load32 m (memory_shared_address + memory_shared_variables_offset + idx * 4)"

text \<open>
  Modelled from the spec: the macros of \<open>tprotocol.h\<close> are not among the sources.
  "The first 4 payload bytes are always the current random token":
  \<open>TPROTO_GET_RANDOM_TOKEN\<close> reads a 32-bit value from payload bytes 0 to 3,
  \<open>TPROTO_NEXT32_PAYLOAD_PTR\<close> advances a payload pointer by 32 bits,
  \<open>TPROTO_GET_PAYLOAD_PARAM32\<close> reads the 32-bit parameter under the pointer, and
  \<open>TPROTO_SET_RANDOM_TOKEN\<close> stores a 32-bit value at an address. A payload pointer
  is a byte offset into the payload array.
\<close>

definition payload_word32 :: "u8 list \<Rightarrow> nat \<Rightarrow> u32" where
  "payload_word32 pl off =
     ucast (pl ! off) OR push_bit 8 (ucast (pl ! (off + 1))) OR
     push_bit 16 (ucast (pl ! (off + 2))) OR push_bit 24 (ucast (pl ! (off + 3)))"

definition TPROTO_GET_RANDOM_TOKEN :: "u8 list \<Rightarrow> u32" where
  "TPROTO_GET_RANDOM_TOKEN pl = payload_word32 pl 0"

definition TPROTO_NEXT32_PAYLOAD_PTR :: "nat \<Rightarrow> nat" where
  "TPROTO_NEXT32_PAYLOAD_PTR ptr = ptr + 4"

definition TPROTO_GET_PAYLOAD_PARAM32 :: "u8 list \<Rightarrow> nat \<Rightarrow> u32" where
  "TPROTO_GET_PAYLOAD_PARAM32 pl ptr = payload_word32 pl ptr"

definition TPROTO_SET_RANDOM_TOKEN :: "memory \<Rightarrow> u32 \<Rightarrow> u32 \<Rightarrow> memory" where
  "TPROTO_SET_RANDOM_TOKEN m mem_address token = store32 m mem_address token"

section \<open>Constants of \<open>rtc.h\<close>\<close>

definition RTCEMUL_RANDOM_TOKEN_OFFSET :: u32 where
  "RTCEMUL_RANDOM_TOKEN_OFFSET = 0xF000"

definition RTCEMUL_RANDOM_TOKEN_SEED_OFFSET :: u32 where
  "RTCEMUL_RANDOM_TOKEN_SEED_OFFSET = RTCEMUL_RANDOM_TOKEN_OFFSET + 4"

definition RTCEMUL_NTP_SUCCESS :: u32 where
  "RTCEMUL_NTP_SUCCESS = RTCEMUL_RANDOM_TOKEN_SEED_OFFSET + 4"

definition RTCEMUL_DATETIME_BCD :: u32 where
  "RTCEMUL_DATETIME_BCD = RTCEMUL_NTP_SUCCESS + 4"

definition RTCEMUL_DATETIME_MSDOS :: u32 where
  "RTCEMUL_DATETIME_MSDOS = RTCEMUL_DATETIME_BCD + 8"

definition RTCEMUL_OLD_XBIOS_TRAP :: u32 where
  "RTCEMUL_OLD_XBIOS_TRAP = RTCEMUL_DATETIME_MSDOS + 8"

definition RTCEMUL_REENTRY_TRAP :: u32 where
  "RTCEMUL_REENTRY_TRAP = RTCEMUL_OLD_XBIOS_TRAP + 4"

definition RTCEMUL_Y2K_PATCH :: u32 where
  "RTCEMUL_Y2K_PATCH = RTCEMUL_REENTRY_TRAP + 4"

definition RTCEMUL_SHARED_VARIABLES :: u32 where
  "RTCEMUL_SHARED_VARIABLES = RTCEMUL_Y2K_PATCH + 8"

definition SHARED_VARIABLE_HARDWARE_TYPE :: u32 where
  "SHARED_VARIABLE_HARDWARE_TYPE = 0"

definition SHARED_VARIABLE_SVERSION :: u32 where
  "SHARED_VARIABLE_SVERSION = 1"

definition SHARED_VARIABLE_BUFFER_TYPE :: u32 where
  "SHARED_VARIABLE_BUFFER_TYPE = 2"

definition NTP_DEFAULT_HOST :: string where
  "NTP_DEFAULT_HOST = ''pool.ntp.org''"

definition NTP_DEFAULT_PORT :: int where
  "NTP_DEFAULT_PORT = 123"

definition NTP_DELTA :: int where
  "NTP_DELTA = 2208988800"

definition NTP_MSG_LEN :: nat where
  "NTP_MSG_LEN = 48"

definition APP_RTCEMUL :: u16 where
  "APP_RTCEMUL = 0x03"

definition RTCEMUL_READ_TIME :: u16 where
  "RTCEMUL_READ_TIME = push_bit 8 APP_RTCEMUL OR 1"

definition RTCEMUL_SAVE_VECTORS :: u16 where
  "RTCEMUL_SAVE_VECTORS = push_bit 8 APP_RTCEMUL OR 2"

definition RTCEMUL_REENTRY_LOCK :: u16 where
  "RTCEMUL_REENTRY_LOCK = push_bit 8 APP_RTCEMUL OR 3"

definition RTCEMUL_REENTRY_UNLOCK :: u16 where
  "RTCEMUL_REENTRY_UNLOCK = push_bit 8 APP_RTCEMUL OR 4"

definition RTCEMUL_SET_SHARED_VAR :: u16 where
  "RTCEMUL_SET_SHARED_VAR = push_bit 8 APP_RTCEMUL OR 5"

section \<open>Program state\<close>

text \<open>
  \<open>datetime_t\<close> of the SDK: \<open>int16_t year\<close> and \<open>int8_t\<close> for the other fields,
  read as signed numbers with \<open>sint\<close>. \<open>struct tm\<close> holds \<open>int\<close>s.
\<close>

record datetime_t =
  year :: u16
  month :: u8
  day :: u8
  dotw :: u8
  hour :: u8
  min_t :: u8
  sec :: u8

record tm =
  tm_sec :: int
  tm_min :: int
  tm_hour :: int
  tm_mday :: int
  tm_mon :: int
  tm_year :: int
  tm_wday :: int

text \<open>
  The fields of \<open>TransmissionProtocol\<close> that the code uses; \<open>payload\<close> is the
  byte array of \<open>MAX_PROTOCOL_PAYLOAD_SIZE\<close> elements.
\<close>

record TransmissionProtocol =
  command_id :: u16
  payload_size :: u16
  bytes_read :: u16
  final_checksum :: u16
  payload :: "u8 list"

type_synonym ip_addr_t = u32

record NTP_TIME =
  ntp_ipaddr :: ip_addr_t
  ntp_pcb :: "nat option"
  ntp_server_found :: bool
  ntp_error :: bool

datatype RTC_TYPE = RTC_SIDECART | RTC_DALLAS | RTC_AREAL | RTC_FMCII | RTC_UNKNOWN

record DallasClock =
  last_magic_found :: u64
  retries :: u16
  magic_sequence_hex :: u64
  clock_sequence :: "u8 list"
  read_address_bit :: u8
  write_address_bit_zero :: u8
  write_address_bit_one :: u8
  magic_sequence :: "u8 list"
  size_magic_sequence :: u16
  size_clock_sequence :: u16
  rom_address :: u32

text \<open>
  The file-level statics of \<open>rtcemul.c\<close>, and the parts of the platform the code
  acts on: the memory behind raw pointers (\<open>ram\<close>), the hardware clock (\<open>hw_rtc\<close>,
  \<open>None\<close> while it is not running), the stream of values \<open>rand()\<close> returns
  (\<open>rand_seq\<close> at position \<open>rand_pos\<close>) and the datagrams handed to the network
  (\<open>udp_out\<close>: destination address, destination port, bytes).
\<close>

record state =
  lastProtocol :: TransmissionProtocol
  lastProtocolValid :: bool
  memorySharedAddress :: u32
  memoryRandomTokenAddress :: u32
  memoryRandomTokenSeedAddress :: u32
  rtcTypeVar :: RTC_TYPE
  dallasClock :: DallasClock
  rtcTime :: datetime_t
  netTime :: NTP_TIME
  utcOffsetSeconds :: int
  ntpServerHost :: string
  ntpServerPort :: int
  y2kPatchEnabled :: bool
  ram :: memory
  hw_rtc :: "datetime_t option"
  rand_seq :: "nat \<Rightarrow> u32"
  rand_pos :: nat
  udp_out :: "(ip_addr_t \<times> int \<times> u8 list) list"

section \<open>Platform functions\<close>

text \<open>
  The SDK's clock interface, as far as the code depends on it. \<open>rtc_init\<close> resets the
  clock block, which leaves it stopped. \<open>rtc_set_datetime\<close> refuses a datetime outside
  the ranges of the hardware and otherwise loads and starts the clock.
  \<open>rtc_get_datetime\<close> fills its argument when the clock runs and leaves it alone
  otherwise. The model does not advance the clock by itself: a tick is a change of
  \<open>hw_rtc\<close> between two calls, and every result below holds for any value of it.
\<close>

definition rtc_init :: "state \<Rightarrow> state" where
  "rtc_init s = s\<lparr>hw_rtc := None\<rparr>"

definition valid_datetime :: "datetime_t \<Rightarrow> bool" where
  "valid_datetime t =
     (0 \<le> sint (year t) \<and> sint (year t) \<le> 4095 \<and>
      1 \<le> sint (month t) \<and> sint (month t) \<le> 12 \<and>
      1 \<le> sint (day t) \<and> sint (day t) \<le> 31 \<and>
      0 \<le> sint (dotw t) \<and> sint (dotw t) \<le> 6 \<and>
      0 \<le> sint (hour t) \<and> sint (hour t) \<le> 23 \<and>
      0 \<le> sint (min_t t) \<and> sint (min_t t) \<le> 59 \<and>
      0 \<le> sint (sec t) \<and> sint (sec t) \<le> 59)"

definition rtc_set_datetime :: "datetime_t \<Rightarrow> state \<Rightarrow> bool \<times> state" where
  "rtc_set_datetime t s =
     (if valid_datetime t then (True, s\<lparr>hw_rtc := Some t\<rparr>) else (False, s))"

definition rtc_get_datetime :: "state \<Rightarrow> state" where
  "rtc_get_datetime s = (case hw_rtc s of None \<Rightarrow> s | Some t \<Rightarrow> s\<lparr>rtcTime := t\<rparr>)"

text \<open>\<open>rand()\<close>: the next value of the pseudo-random stream.\<close>

definition rand :: "state \<Rightarrow> u32 \<times> state" where
  "rand s = (rand_seq s (rand_pos s), s\<lparr>rand_pos := Suc (rand_pos s)\<rparr>)"

text \<open>C's \<open>%\<close> and \<open>/\<close> on \<open>int\<close> truncate towards zero.\<close>

definition c_mod :: "int \<Rightarrow> int \<Rightarrow> int" where
  "c_mod a b = sgn a * (\<bar>a\<bar> mod \<bar>b\<bar>)"

definition c_div :: "int \<Rightarrow> int \<Rightarrow> int" where
  "c_div a b = sgn a * sgn b * (\<bar>a\<bar> div \<bar>b\<bar>)"

section \<open>\<open>set_ikb_datetime_msg\<close>\<close>

text \<open>
  The index parameters are \<open>uint16_t\<close>, added to the 32-bit base address.
  \<open>gemdos_version\<close> is a \<open>uint16_t\<close> parameter, so the test
  \<open>gemdos_version >= 0\<close> is on its unsigned value. \<open>rtc_time_ptr[i]\<close> is a byte
  store at \<open>mem_shared_addr + rtcemul_datetime_bcd_idx + i\<close>. The MSDOS words are
  computed on \<open>int\<close> and truncated to 16 bits by the assignment.
\<close>

definition set_ikb_datetime_msg ::
    "u32 \<Rightarrow> u16 \<Rightarrow> u16 \<Rightarrow> u16 \<Rightarrow> u16 \<Rightarrow> bool \<Rightarrow> state \<Rightarrow> state" where
  "set_ikb_datetime_msg mem_shared_addr rtcemul_datetime_bcd_idx rtcemul_y2k_patch_idx
       rtcemul_datetime_msdos_idx gemdos_version y2k_patch s0 =
    (let rtc_time_ptr = mem_shared_addr + ucast rtcemul_datetime_bcd_idx;
         s = rtc_get_datetime s0;
         t = rtcTime s;
         msdos_date = (word_of_int (push_bit 9 (sint (year t) - 1980) OR
                          push_bit 5 (sint (month t)) OR sint (day t)) :: u16);
         msdos_time = (word_of_int (push_bit 11 (sint (hour t)) OR
                          push_bit 5 (sint (min_t t)) OR c_div (sint (sec t)) 2) :: u16);
         m = store8 (ram s) (rtc_time_ptr + 1) 0x1b;
         m = (if 0 \<le> uint gemdos_version \<and> y2k_patch
              then store8 m rtc_time_ptr
                     (add_bcd (to_bcd (word_of_int (c_mod (sint (year t)) 100)))
                              (to_bcd (word_of_int ((2000 - 1980) + (80 - 30)))))
              else WRITE_LONGWORD_RAW
                     (store8 m rtc_time_ptr (to_bcd (word_of_int (c_mod (sint (year t)) 100))))
                     mem_shared_addr (ucast rtcemul_y2k_patch_idx) 0);
         m = store8 m (rtc_time_ptr + 3) (to_bcd (month t));
         m = store8 m (rtc_time_ptr + 2) (to_bcd (day t));
         m = store8 m (rtc_time_ptr + 5) (to_bcd (hour t));
         m = store8 m (rtc_time_ptr + 4) (to_bcd (min_t t));
         m = store8 m (rtc_time_ptr + 7) (to_bcd (sec t));
         m = store8 m (rtc_time_ptr + 6) 0x0;
         msdos_datetime = (push_bit 16 (ucast msdos_date) OR ucast msdos_time :: u32);
         m = WRITE_LONGWORD_RAW m mem_shared_addr (ucast rtcemul_datetime_msdos_idx)
               msdos_datetime
     in s\<lparr>ram := m\<rparr>)"

section \<open>\<open>rtc_preinit\<close>, \<open>populateMagicSequence\<close> and \<open>rtc_postinit\<close>\<close>

text \<open>
  \<open>rom_in_ram_start\<close> (the address of the linker symbol) and
  \<open>FLASH_ROM4_LOAD_OFFSET\<close> are not among the sources: they are parameters.
\<close>

definition rtc_preinit :: "u32 \<Rightarrow> u32 \<Rightarrow> state \<Rightarrow> state" where
  "rtc_preinit rom_in_ram_start FLASH_ROM4_LOAD_OFFSET s =
    (let base = rom_in_ram_start + FLASH_ROM4_LOAD_OFFSET;
         s = s\<lparr>memorySharedAddress := base\<rparr>;
         s = s\<lparr>memoryRandomTokenAddress := memorySharedAddress s + RTCEMUL_RANDOM_TOKEN_OFFSET\<rparr>;
         s = s\<lparr>memoryRandomTokenSeedAddress :=
                 memorySharedAddress s + RTCEMUL_RANDOM_TOKEN_SEED_OFFSET\<rparr>
     in s\<lparr>ram := WRITE_LONGWORD_RAW (ram s) (memorySharedAddress s) RTCEMUL_NTP_SUCCESS 0x0\<rparr>)"

text \<open>
  The loop \<open>for (int i = 2; i < 66; i++)\<close> of \<open>populateMagicSequence\<close>, from index
  \<open>i\<close> on. It reads the two encodings from the global \<open>dallasClock\<close> and writes
  \<open>sequence[i]\<close>; the array has 66 elements, so every index is in range.
\<close>

function populate_from :: "DallasClock \<Rightarrow> u64 \<Rightarrow> nat \<Rightarrow> u8 list \<Rightarrow> u8 list" where
  "populate_from dc hex_value i sequence =
     (if i < 66
      then populate_from dc hex_value (Suc i)
             (sequence[i := (if drop_bit (i - 2) hex_value AND 1 \<noteq> 0
                             then write_address_bit_one dc
                             else write_address_bit_zero dc)])
      else sequence)"
  by pat_completeness auto
termination
  by (relation "measure (\<lambda>(dc, hex_value, i, sequence). 66 - i)") auto

definition populateMagicSequence :: "DallasClock \<Rightarrow> u8 list \<Rightarrow> u64 \<Rightarrow> u8 list" where
  "populateMagicSequence dc sequence hex_value = populate_from dc hex_value 2 sequence"

text \<open>
  The settings entries the code looks up. An entry is \<open>None\<close> when
  \<open>settings_find_entry\<close> returns no entry or an entry without value. The port entry
  holds what \<open>atoi\<close> makes of a non-empty value; the UTC offset entry holds
  \<open>(long)(offsetHours * 3600)\<close> when \<open>strtod\<close> reads the whole of a non-empty value
  and the hours lie in -12 .. 14, and \<open>None\<close> otherwise.
\<close>

record settings =
  cfg_ntp_server_host :: "string option"
  cfg_ntp_server_port :: "int option"
  cfg_utc_offset :: "int option"
  cfg_y2k_patch :: "string option"
  cfg_rtc_type :: "string option"

text \<open>
  \<open>rtc_postinit\<close>, block by block: the status and shared-variable writes, the RTC
  type, the Y2K patch setting, the datetime record, and the first token and seed.
\<close>

definition postinit_shared_vars :: "state \<Rightarrow> state" where
  "postinit_shared_vars s =
    (let base = memorySharedAddress s;
         m = WRITE_LONGWORD_RAW (ram s) base RTCEMUL_NTP_SUCCESS 0xFFFFFFFF;
         m = WRITE_LONGWORD_RAW m base RTCEMUL_REENTRY_TRAP 0x0;
         m = SET_SHARED_VAR SHARED_VARIABLE_HARDWARE_TYPE 0 base RTCEMUL_SHARED_VARIABLES m;
         m = SET_SHARED_VAR SHARED_VARIABLE_SVERSION 0 base RTCEMUL_SHARED_VARIABLES m;
         m = SET_SHARED_VAR SHARED_VARIABLE_BUFFER_TYPE 0 base RTCEMUL_SHARED_VARIABLES m
     in s\<lparr>ram := m\<rparr>)"

definition postinit_rtc_type :: "settings \<Rightarrow> state \<Rightarrow> state" where
  "postinit_rtc_type cfg s =
    (case cfg_rtc_type cfg of
       Some v \<Rightarrow>
         if v = ''DALLAS'' then
           (let dc = (dallasClock s)\<lparr>last_magic_found := 0, retries := 0,
                       magic_sequence_hex := 0x5ca33ac55ca33ac5,
                       read_address_bit := 0x9, write_address_bit_zero := 0x1,
                       write_address_bit_one := 0x3,
                       size_magic_sequence := 66, size_clock_sequence := 64,
                       rom_address := memorySharedAddress s\<rparr>;
                dc = dc\<lparr>magic_sequence :=
                       populateMagicSequence dc (magic_sequence dc) (magic_sequence_hex dc)\<rparr>
            in s\<lparr>rtcTypeVar := RTC_DALLAS, dallasClock := dc\<rparr>)
         else if v = ''SIDECART'' then s\<lparr>rtcTypeVar := RTC_SIDECART\<rparr>
         else s\<lparr>rtcTypeVar := RTC_UNKNOWN\<rparr>
     | None \<Rightarrow> s\<lparr>rtcTypeVar := RTC_UNKNOWN\<rparr>)"

definition y2k_setting_enabled :: "char \<Rightarrow> bool" where
  "y2k_setting_enabled firstChar =
     (firstChar = CHR ''t'' \<or> firstChar = CHR ''T'' \<or> firstChar = CHR ''y'' \<or>
      firstChar = CHR ''Y'' \<or> firstChar = CHR ''1'')"

definition postinit_y2k_patch :: "settings \<Rightarrow> state \<Rightarrow> state" where
  "postinit_y2k_patch cfg s =
    (case cfg_y2k_patch cfg of
       Some (firstChar # rest) \<Rightarrow>
         (let s = s\<lparr>y2kPatchEnabled := y2k_setting_enabled firstChar\<rparr>
          in s\<lparr>ram := WRITE_LONGWORD_RAW (ram s) (memorySharedAddress s) RTCEMUL_Y2K_PATCH
                          (if y2kPatchEnabled s then 0xFFFFFFFF else 0)\<rparr>)
     | _ \<Rightarrow> s\<lparr>ram := WRITE_LONGWORD_RAW (ram s) (memorySharedAddress s) RTCEMUL_Y2K_PATCH 0\<rparr>)"

definition postinit_datetime :: "state \<Rightarrow> state" where
  "postinit_datetime s =
    (let gemdos_version = GET_SHARED_VAR SHARED_VARIABLE_SVERSION (memorySharedAddress s)
                            RTCEMUL_SHARED_VARIABLES (ram s)
     in set_ikb_datetime_msg (memorySharedAddress s) (ucast RTCEMUL_DATETIME_BCD)
          (ucast RTCEMUL_Y2K_PATCH) (ucast RTCEMUL_DATETIME_MSDOS)
          (ucast gemdos_version) (y2kPatchEnabled s) s)"

definition postinit_random_token :: "state \<Rightarrow> state" where
  "postinit_random_token s0 =
    (if memoryRandomTokenAddress s0 \<noteq> 0
     then (let (randomToken, s) = rand s0;
               s = s\<lparr>ram := TPROTO_SET_RANDOM_TOKEN (ram s)
                                (memoryRandomTokenAddress s) randomToken\<rparr>;
               (newRandomSeedToken, s) = rand s
           in s\<lparr>ram := TPROTO_SET_RANDOM_TOKEN (ram s)
                            (memoryRandomTokenSeedAddress s) newRandomSeedToken\<rparr>)
     else s0)"

definition rtc_postinit :: "settings \<Rightarrow> state \<Rightarrow> int \<times> state" where
  "rtc_postinit cfg s =
     (0, postinit_random_token (postinit_datetime (postinit_y2k_patch cfg
           (postinit_rtc_type cfg (postinit_shared_vars s)))))"

section \<open>The command dispatcher\<close>

text \<open>
  \<open>memcpy(dst, src, n)\<close> on two arrays: the first \<open>n\<close> bytes of \<open>dst\<close> are
  replaced. A copy that would leave either array is a fault, \<open>None\<close>.
\<close>

definition memcpy :: "u8 list \<Rightarrow> u8 list \<Rightarrow> nat \<Rightarrow> u8 list option" where
  "memcpy dst src n =
     (if n \<le> length dst \<and> n \<le> length src then Some (take n src @ drop n dst) else None)"

text \<open>
  The number of bytes \<open>handle_protocol_command\<close> copies: the local \<open>size\<close> after
  the clamp. \<open>MAX_PROTOCOL_PAYLOAD_SIZE\<close> is not among the sources: it is a parameter.
\<close>

definition clamped_size :: "nat \<Rightarrow> TransmissionProtocol \<Rightarrow> nat" where
  "clamped_size MAX_PROTOCOL_PAYLOAD_SIZE protocol =
     (let size = unat (payload_size protocol)
      in if size > MAX_PROTOCOL_PAYLOAD_SIZE then MAX_PROTOCOL_PAYLOAD_SIZE else size)"

definition handle_protocol_command ::
    "nat \<Rightarrow> TransmissionProtocol \<Rightarrow> state \<Rightarrow> state option" where
  "handle_protocol_command MAX_PROTOCOL_PAYLOAD_SIZE protocol s =
    (let lp = (lastProtocol s)\<lparr>command_id := command_id protocol,
                                payload_size := payload_size protocol,
                                bytes_read := bytes_read protocol,
                                final_checksum := final_checksum protocol\<rparr>;
         size = clamped_size MAX_PROTOCOL_PAYLOAD_SIZE protocol
     in case memcpy (payload lp) (payload protocol) size of
          None \<Rightarrow> None
        | Some pl \<Rightarrow> Some (s\<lparr>lastProtocol := lp\<lparr>payload := pl\<rparr>, lastProtocolValid := True\<rparr>))"

text \<open>\<open>handle_protocol_checksum_error\<close> only logs.\<close>

definition handle_protocol_checksum_error ::
    "TransmissionProtocol \<Rightarrow> state \<Rightarrow> state option" where
  "handle_protocol_checksum_error protocol s = Some s"

text \<open>
  Modelled from the spec: \<open>tprotocol_parse\<close> of \<open>tprotocol.h\<close> is not among the
  sources. The spec: "given a raw frame read from the bus, produce either a validated
  CommandFrame or a checksum-error signal", where the "checksum must match a function of
  header+payload or the frame is discarded". The model is at the bus access that completes
  a frame: \<open>checksum\<close> is that function (a parameter), and the parser calls the
  command callback when the frame's checksum field matches it and the error callback
  otherwise.
\<close>

definition tprotocol_parse ::
    "(TransmissionProtocol \<Rightarrow> u16) \<Rightarrow> TransmissionProtocol \<Rightarrow>
     (TransmissionProtocol \<Rightarrow> state \<Rightarrow> state option) \<Rightarrow>
     (TransmissionProtocol \<Rightarrow> state \<Rightarrow> state option) \<Rightarrow> state \<Rightarrow> state option" where
  "tprotocol_parse checksum frame on_command on_checksum_error s =
     (if final_checksum frame = checksum frame then on_command frame s
      else on_checksum_error frame s)"

text \<open>
  The interrupt handler. \<open>addr\<close> is the DMA read address of the bus access;
  \<open>completed\<close> is the frame this access completes, \<open>None\<close> while the parser is
  still collecting one. An access outside the command window (bit 16 clear) is ignored.
  The acknowledgement of the interrupt is a write to a hardware register, outside the
  state.
\<close>

definition rtc_dma_irq_handler_lookup ::
    "nat \<Rightarrow> (TransmissionProtocol \<Rightarrow> u16) \<Rightarrow> u32 \<Rightarrow> TransmissionProtocol option \<Rightarrow>
     state \<Rightarrow> state option" where
  "rtc_dma_irq_handler_lookup MAX_PROTOCOL_PAYLOAD_SIZE checksum addr completed s =
     (if addr AND 0x00010000 \<noteq> 0
      then (case completed of
              None \<Rightarrow> Some s
            | Some frame \<Rightarrow>
                tprotocol_parse checksum frame
                  (handle_protocol_command MAX_PROTOCOL_PAYLOAD_SIZE)
                  handle_protocol_checksum_error s)
      else Some s)"

section \<open>The RTC command engine: \<open>rtc_loop\<close>\<close>

text \<open>
  The \<open>switch\<close> of \<open>rtc_loop\<close>. The payload parameters that are only printed are
  left out. \<open>SAVE_VECTORS\<close> and \<open>SET_SHARED_VAR\<close> take their arguments behind the
  random token, at payload offsets 4 and 8.
\<close>

definition rtc_command :: "state \<Rightarrow> state" where
  "rtc_command s =
    (let cmd = command_id (lastProtocol s) in
     if cmd = RTCEMUL_READ_TIME then
       (let gemdos_version = GET_SHARED_VAR SHARED_VARIABLE_SVERSION (memorySharedAddress s)
                               RTCEMUL_SHARED_VARIABLES (ram s)
        in set_ikb_datetime_msg (memorySharedAddress s) (ucast RTCEMUL_DATETIME_BCD)
             (ucast RTCEMUL_Y2K_PATCH) (ucast RTCEMUL_DATETIME_MSDOS)
             (ucast gemdos_version) (y2kPatchEnabled s) s)
     else if cmd = RTCEMUL_SAVE_VECTORS then
       (let payload_ptr = TPROTO_NEXT32_PAYLOAD_PTR 0;
            payload32 = TPROTO_GET_PAYLOAD_PARAM32 (payload (lastProtocol s)) payload_ptr
        in s\<lparr>ram := WRITE_AND_SWAP_LONGWORD (ram s) (memorySharedAddress s)
                         RTCEMUL_OLD_XBIOS_TRAP payload32\<rparr>)
     else if cmd = RTCEMUL_REENTRY_LOCK then
       s\<lparr>ram := WRITE_LONGWORD_RAW (ram s) (memorySharedAddress s)
                    RTCEMUL_REENTRY_TRAP 0xFFFFFFFF\<rparr>
     else if cmd = RTCEMUL_REENTRY_UNLOCK then
       s\<lparr>ram := WRITE_LONGWORD_RAW (ram s) (memorySharedAddress s) RTCEMUL_REENTRY_TRAP 0x0\<rparr>
     else if cmd = RTCEMUL_SET_SHARED_VAR then
       (let payload_ptr = TPROTO_NEXT32_PAYLOAD_PTR 0;
            sharedVarIdx = TPROTO_GET_PAYLOAD_PARAM32 (payload (lastProtocol s)) payload_ptr;
            payload_ptr = TPROTO_NEXT32_PAYLOAD_PTR payload_ptr;
            sharedVarValue = TPROTO_GET_PAYLOAD_PARAM32 (payload (lastProtocol s)) payload_ptr
        in s\<lparr>ram := SET_SHARED_VAR sharedVarIdx sharedVarValue (memorySharedAddress s)
                         RTCEMUL_SHARED_VARIABLES (ram s)\<rparr>)
     else s)"

text \<open>
  The block guarded by \<open>if (lastProtocolValid)\<close>: read the token from the payload,
  run the command, then write the token and a new seed.
\<close>

definition rtc_loop_body :: "state \<Rightarrow> state" where
  "rtc_loop_body s0 =
    (let randomToken = TPROTO_GET_RANDOM_TOKEN (payload (lastProtocol s0));
         s = rtc_command s0
     in if memoryRandomTokenAddress s \<noteq> 0
        then (let s = s\<lparr>ram := TPROTO_SET_RANDOM_TOKEN (ram s)
                                   (memoryRandomTokenAddress s) randomToken\<rparr>;
                  (newRandomSeedToken, s) = rand s
              in s\<lparr>ram := TPROTO_SET_RANDOM_TOKEN (ram s)
                               (memoryRandomTokenSeedAddress s) newRandomSeedToken\<rparr>)
        else s)"

text \<open>The last statement of \<open>rtc_loop\<close>, after the block: \<open>lastProtocolValid = false\<close>.\<close>

definition rtc_loop_clear :: "state \<Rightarrow> state" where
  "rtc_loop_clear s = s\<lparr>lastProtocolValid := False\<rparr>"

definition rtc_loop :: "state \<Rightarrow> state" where
  "rtc_loop s = rtc_loop_clear (if lastProtocolValid s then rtc_loop_body s else s)"

section \<open>Interrupts during a pass of \<open>rtc_loop\<close>\<close>

text \<open>
  The interrupt handler can run between any two statements of the main loop. The
  interleavings are modelled at two observation points of a pass: at its entry, and
  between the guarded block and the final clearing of the flag. \<open>MainStep\<close> runs the
  main loop to its next point; \<open>Interrupt\<close> runs the handler there.
\<close>

datatype main_pc = AtEntry | BeforeClear

datatype event = MainStep | Interrupt u32 "TransmissionProtocol option"

fun step ::
    "nat \<Rightarrow> (TransmissionProtocol \<Rightarrow> u16) \<Rightarrow> event \<Rightarrow> main_pc \<times> state \<Rightarrow>
     (main_pc \<times> state) option" where
  "step M ck MainStep (AtEntry, s) =
     Some (BeforeClear, if lastProtocolValid s then rtc_loop_body s else s)"
| "step M ck MainStep (BeforeClear, s) = Some (AtEntry, rtc_loop_clear s)"
| "step M ck (Interrupt addr completed) (pc, s) =
     (case rtc_dma_irq_handler_lookup M ck addr completed s of
        None \<Rightarrow> None
      | Some s' \<Rightarrow> Some (pc, s'))"

fun run ::
    "nat \<Rightarrow> (TransmissionProtocol \<Rightarrow> u16) \<Rightarrow> event list \<Rightarrow> main_pc \<times> state \<Rightarrow>
     (main_pc \<times> state) option" where
  "run M ck [] c = Some c"
| "run M ck (e # es) c = (case step M ck e c of None \<Rightarrow> None | Some c' \<Rightarrow> run M ck es c')"

section \<open>The NTP synchronizer\<close>

text \<open>
  \<open>hostFoundCB\<close>: the callback argument is always \<open>&netTime\<close>, so the branch for a
  null argument is not taken; \<open>name\<close> and \<open>ipaddr\<close> may be null.
\<close>

definition hostFoundCB :: "string option \<Rightarrow> ip_addr_t option \<Rightarrow> state \<Rightarrow> state" where
  "hostFoundCB name ipaddr s =
    (case name of
       None \<Rightarrow> s
     | Some n \<Rightarrow>
        (case ipaddr of
           Some ip \<Rightarrow>
             if \<not> ntp_server_found (netTime s)
             then s\<lparr>netTime := (netTime s)\<lparr>ntp_server_found := True, ntp_ipaddr := ip\<rparr>\<rparr>
             else s
         | None \<Rightarrow> s\<lparr>netTime := (netTime s)\<lparr>ntp_error := True\<rparr>\<rparr>))"

text \<open>
  A received datagram is its bytes (\<open>tot_len\<close> is their number); \<open>pbuf_get_at\<close>
  yields 0 beyond the end. The transmit timestamp is the big-endian 32-bit value at
  offset 40 (\<open>pbuf_copy_partial\<close> followed by \<open>lwip_ntohl\<close>).
\<close>

definition pbuf_get_at :: "u8 list \<Rightarrow> nat \<Rightarrow> u8" where
  "pbuf_get_at p i = (if i < length p then p ! i else 0)"

definition transmit_timestamp :: "u8 list \<Rightarrow> u32" where
  "transmit_timestamp p =
     push_bit 24 (ucast (pbuf_get_at p 40)) OR push_bit 16 (ucast (pbuf_get_at p 41)) OR
     push_bit 8 (ucast (pbuf_get_at p 42)) OR ucast (pbuf_get_at p 43)"

text \<open>
  \<open>ntpRecvCB\<close>. \<open>gmtime\<close> is the C library's conversion, a parameter; it may return
  null. The sum \<open>lwip_ntohl(...) - NTP_DELTA + utcOffsetSeconds\<close> is computed in a
  wider type and truncated to 32 bits by the assignment to \<open>transmit_timestamp_secs\<close>.
  The \<open>datetime_t\<close> fields truncate what is assigned to them.
\<close>

definition ntpRecvCB ::
    "(int \<Rightarrow> tm option) \<Rightarrow> u8 list option \<Rightarrow> ip_addr_t \<Rightarrow> u16 \<Rightarrow> state \<Rightarrow> state" where
  "ntpRecvCB gmtime p addr port s =
    (case p of
       None \<Rightarrow> s
     | Some b \<Rightarrow>
        if length b \<noteq> NTP_MSG_LEN then s
        else if ntp_ipaddr (netTime s) \<noteq> addr \<or> uint port \<noteq> NTP_DEFAULT_PORT then s
        else
          (let mode = pbuf_get_at b 0 AND 0x07;
               stratum = pbuf_get_at b 1
           in if mode \<noteq> 4 \<or> stratum = 0 then s
              else
                (let transmit_timestamp_secs =
                       (word_of_int (uint (transmit_timestamp b) - NTP_DELTA +
                                     utcOffsetSeconds s) :: u32);
                     utc_sec = uint transmit_timestamp_secs
                 in case gmtime utc_sec of
                      None \<Rightarrow> s
                    | Some utc \<Rightarrow>
                       (let s = s\<lparr>rtcTime :=
                                  \<lparr>year = word_of_int (tm_year utc + 1900),
                                   month = word_of_int (tm_mon utc + 1),
                                   day = word_of_int (tm_mday utc),
                                   dotw = word_of_int (tm_wday utc),
                                   hour = word_of_int (tm_hour utc),
                                   min_t = word_of_int (tm_min utc),
                                   sec = word_of_int (tm_sec utc)\<rparr>\<rparr>
                        in snd (rtc_set_datetime (rtcTime s) s)))))"

text \<open>
  \<open>ntp_init\<close>: \<open>new_pcb\<close> is what \<open>udp_new_ip_type\<close> returns. The receive callback
  is registered only when a control block was obtained.
\<close>

definition ntp_init :: "nat option \<Rightarrow> state \<Rightarrow> state" where
  "ntp_init new_pcb s =
    (let s = s\<lparr>netTime := (netTime s)\<lparr>ntp_pcb := new_pcb\<rparr>\<rparr>
     in case new_pcb of
          None \<Rightarrow> s
        | Some pcb \<Rightarrow> s\<lparr>netTime := (netTime s)\<lparr>ntp_server_found := False, ntp_error := False\<rparr>\<rparr>)"

text \<open>
  \<open>set_internal_rtc\<close> sends the request: 48 bytes, the first \<open>0x1b\<close>, to the
  resolved address and the configured port \<open>ntpServerPort\<close>. \<open>pbuf_ok\<close> and
  \<open>send_ok\<close> say whether \<open>pbuf_alloc\<close> and \<open>udp_sendto\<close> succeed.
\<close>

definition set_internal_rtc :: "bool \<Rightarrow> bool \<Rightarrow> state \<Rightarrow> state" where
  "set_internal_rtc pbuf_ok send_ok s =
    (if \<not> pbuf_ok then s
     else if \<not> send_ok then s
     else s\<lparr>udp_out := udp_out s @
               [(ntp_ipaddr (netTime s), ntpServerPort s, 0x1b # replicate (NTP_MSG_LEN - 1) 0)]\<rparr>)"

text \<open>
  What the network does during one pass of the polling loop of \<open>rtc_queryNTPTime\<close>:
  the callbacks that run while the pass waits (\<open>sleep_ms\<close> or \<open>network_safePoll\<close>),
  the outcome of the send, what \<open>dns_gethostbyname\<close> returns, the callbacks that run
  right after the DNS call, and the time the pass takes beyond one microsecond.
  A cached DNS answer (\<open>ERR_OK\<close>) is written to \<open>ntp_ipaddr\<close> without a callback.
  \<open>arrived_at\<close> is when the callbacks in \<open>arrived\<close> run, in microseconds after the
  loop test of the pass; the program cannot see it, and only statements about the time of
  a commit use it.
\<close>

datatype net_event =
    HostFound "string option" "ip_addr_t option"
  | NtpRecv "u8 list option" ip_addr_t u16

datatype dns_ret = ERR_OK ip_addr_t | ERR_INPROGRESS | ERR_ARG

record pass_env =
  arrived :: "net_event list"
  pbuf_alloc_ok :: bool
  udp_sendto_ok :: bool
  dns_answer :: dns_ret
  arrived_after_dns :: "net_event list"
  lag :: nat
  arrived_at :: nat

fun deliver :: "(int \<Rightarrow> tm option) \<Rightarrow> net_event \<Rightarrow> state \<Rightarrow> state" where
  "deliver gmtime (HostFound name ipaddr) s = hostFoundCB name ipaddr s"
| "deliver gmtime (NtpRecv p addr port) s =
     (case ntp_pcb (netTime s) of None \<Rightarrow> s | Some pcb \<Rightarrow> ntpRecvCB gmtime p addr port s)"

fun deliver_all :: "(int \<Rightarrow> tm option) \<Rightarrow> net_event list \<Rightarrow> state \<Rightarrow> state" where
  "deliver_all gmtime [] s = s"
| "deliver_all gmtime (e # es) s = deliver_all gmtime es (deliver gmtime e s)"

definition dns_gethostbyname :: "dns_ret \<Rightarrow> state \<Rightarrow> state" where
  "dns_gethostbyname r s =
     (case r of ERR_OK ip \<Rightarrow> s\<lparr>netTime := (netTime s)\<lparr>ntp_ipaddr := ip\<rparr>\<rparr> | _ \<Rightarrow> s)"

text \<open>The body of the \<open>while\<close> loop; \<open>dns_query_done\<close> is its local flag.\<close>

definition query_pass ::
    "(int \<Rightarrow> tm option) \<Rightarrow> pass_env \<Rightarrow> bool \<times> state \<Rightarrow> bool \<times> state" where
  "query_pass gmtime e ds =
    (let dns_query_done = fst ds;
         s = deliver_all gmtime (arrived e) (snd ds);
         s = (if ntp_server_found (netTime s) \<and> dns_query_done
              then set_internal_rtc (pbuf_alloc_ok e) (udp_sendto_ok e)
                     (s\<lparr>netTime := (netTime s)\<lparr>ntp_server_found := False\<rparr>\<rparr>)
              else s);
         s = (if \<not> dns_query_done
              then deliver_all gmtime (arrived_after_dns e) (dns_gethostbyname (dns_answer e) s)
              else s);
         dns_query_done = (if \<not> dns_query_done then True else dns_query_done)
     in if ntp_error (netTime s)
        then (False, s\<lparr>netTime := (netTime s)\<lparr>ntp_error := False, ntp_server_found := False\<rparr>\<rparr>)
        else (dns_query_done, s))"

text \<open>
  The loop \<open>while (absolute_time_diff_us(get_absolute_time(), rtcTimeoutSec) > 0 &&
  getRtcTime()->year == 0)\<close>. Times are in microseconds; \<open>now\<close> is the clock at the
  loop test of pass \<open>k\<close>, and a pass takes at least one microsecond.
\<close>

function query_loop ::
    "(int \<Rightarrow> tm option) \<Rightarrow> (nat \<Rightarrow> pass_env) \<Rightarrow> nat \<Rightarrow> nat \<Rightarrow> nat \<Rightarrow> bool \<times> state \<Rightarrow>
     bool \<times> state" where
  "query_loop gmtime env k now rtcTimeoutSec ds =
     (if now < rtcTimeoutSec \<and> year (rtcTime (snd ds)) = 0
      then query_loop gmtime env (Suc k) (now + Suc (lag (env k))) rtcTimeoutSec
             (query_pass gmtime (env k) ds)
      else ds)"
  by pat_completeness auto
termination
  by (relation "measure (\<lambda>(gmtime, env, k, now, rtcTimeoutSec, ds). rtcTimeoutSec - now)") auto

text \<open>
  \<open>rtc_queryNTPTime\<close> up to the end of the loop: the settings, \<open>ntp_init\<close>, the
  deadline \<open>make_timeout_time_ms(5 * 1000)\<close> from the current time \<open>t0\<close>, and the
  loop. The result is the state in which the loop is left. The host name is copied with
  \<open>snprintf\<close> into a buffer as long as a settings value, so nothing is cut off.
\<close>

definition ntp_wait ::
    "(int \<Rightarrow> tm option) \<Rightarrow> settings \<Rightarrow> nat option \<Rightarrow> (nat \<Rightarrow> pass_env) \<Rightarrow> nat \<Rightarrow> state \<Rightarrow>
     state" where
  "ntp_wait gmtime cfg new_pcb env t0 s0 =
    (let s = rtc_init s0;
         s = s\<lparr>ntpServerHost :=
                 (case cfg_ntp_server_host cfg of
                    Some (c # cs) \<Rightarrow> c # cs
                  | _ \<Rightarrow> NTP_DEFAULT_HOST)\<rparr>;
         s = s\<lparr>ntpServerPort :=
                 (case cfg_ntp_server_port cfg of
                    Some port \<Rightarrow> if port > 0 \<and> port \<le> 65535 then port else NTP_DEFAULT_PORT
                  | None \<Rightarrow> NTP_DEFAULT_PORT)\<rparr>;
         s = (case cfg_utc_offset cfg of
                Some offsetSeconds \<Rightarrow> s\<lparr>utcOffsetSeconds := offsetSeconds\<rparr>
              | None \<Rightarrow> s);
         s = ntp_init new_pcb s;
         s = s\<lparr>netTime := (netTime s)\<lparr>ntp_server_found := False\<rparr>\<rparr>;
         rtcTimeoutSec = t0 + 5 * 1000 * 1000
     in snd (query_loop gmtime env 0 t0 rtcTimeoutSec (False, s)))"

definition rtc_queryNTPTime ::
    "(int \<Rightarrow> tm option) \<Rightarrow> settings \<Rightarrow> nat option \<Rightarrow> (nat \<Rightarrow> pass_env) \<Rightarrow> nat \<Rightarrow> state \<Rightarrow>
     int \<times> state" where
  "rtc_queryNTPTime gmtime cfg new_pcb env t0 s0 =
    (let s = ntp_wait gmtime cfg new_pcb env t0 s0
     in if year (rtcTime s) \<noteq> 0 then (0, rtc_get_datetime s) else (- 1, s))"

text \<open>
  A \<open>gmtime\<close> to run the model on concrete datagrams: the proleptic Gregorian calendar
  of a count of seconds since 1970-01-01 00:00:00 UTC, which was a Thursday.
\<close>

definition gmtime_civil :: "int \<Rightarrow> tm option" where
  "gmtime_civil t =
    (let days = t div 86400;
         rem = t mod 86400;
         z = days + 719468;
         era = z div 146097;
         doe = z - era * 146097;
         yoe = (doe - doe div 1460 + doe div 36524 - doe div 146096) div 365;
         doy = doe - (365 * yoe + yoe div 4 - yoe div 100);
         mp = (5 * doy + 2) div 153;
         d = doy - (153 * mp + 2) div 5 + 1;
         m = (if mp < 10 then mp + 3 else mp - 9);
         y = yoe + era * 400 + (if m \<le> 2 then 1 else 0)
     in Some \<lparr>tm_sec = rem mod 60, tm_min = (rem div 60) mod 60, tm_hour = rem div 3600,
              tm_mday = d, tm_mon = m - 1, tm_year = y - 1900,
              tm_wday = (days + 4) mod 7\<rparr>)"


primrec pass_start :: "(nat \<Rightarrow> pass_env) \<Rightarrow> nat \<Rightarrow> nat \<Rightarrow> nat" where
  "pass_start env t0 0 = t0"
| "pass_start env t0 (Suc k) = pass_start env t0 k + Suc (lag (env k))"





section \<open>Concrete inputs\<close>

text \<open>
  \<open>power_on\<close> is the state the static initialisers give: everything zero, the port at
  its default, the RTC type unknown. \<open>ready\<close> has the three addresses as
  \<open>rtc_preinit\<close> computes them for the base \<open>0x20020000\<close>. \<open>stage\<close> puts a frame
  into the staging buffer and raises the flag, as \<open>handle_protocol_command\<close> does with a
  frame that fills the payload array. The frames carry a payload array of 16 bytes.
\<close>

definition zero_frame :: "nat \<Rightarrow> TransmissionProtocol" where
  "zero_frame n = \<lparr>command_id = 0, payload_size = 0, bytes_read = 0, final_checksum = 0,
                   payload = replicate n 0\<rparr>"

definition power_on :: state where
  "power_on =
    \<lparr>lastProtocol = zero_frame 16, lastProtocolValid = False,
     memorySharedAddress = 0, memoryRandomTokenAddress = 0, memoryRandomTokenSeedAddress = 0,
     rtcTypeVar = RTC_UNKNOWN,
     dallasClock = \<lparr>last_magic_found = 0, retries = 0, magic_sequence_hex = 0,
                    clock_sequence = replicate 64 0, read_address_bit = 0,
                    write_address_bit_zero = 0, write_address_bit_one = 0,
                    magic_sequence = replicate 66 0, size_magic_sequence = 0,
                    size_clock_sequence = 0, rom_address = 0\<rparr>,
     rtcTime = \<lparr>year = 0, month = 0, day = 0, dotw = 0, hour = 0, min_t = 0, sec = 0\<rparr>,
     netTime = \<lparr>ntp_ipaddr = 0, ntp_pcb = None, ntp_server_found = False, ntp_error = False\<rparr>,
     utcOffsetSeconds = 0, ntpServerHost = [], ntpServerPort = NTP_DEFAULT_PORT,
     y2kPatchEnabled = False,
     ram = (\<lambda>a. 0), hw_rtc = None,
     rand_seq = (\<lambda>n. 0x41C64E6D * of_nat n + 0x3039), rand_pos = 0, udp_out = []\<rparr>"

definition ready :: state where
  "ready = power_on\<lparr>memorySharedAddress := 0x20020000,
                     memoryRandomTokenAddress := 0x2002F000,
                     memoryRandomTokenSeedAddress := 0x2002F004\<rparr>"

definition demo_checksum :: "TransmissionProtocol \<Rightarrow> u16" where
  "demo_checksum frame = command_id frame + payload_size frame"

definition demo_frame :: "u16 \<Rightarrow> u16 \<Rightarrow> u8 list \<Rightarrow> TransmissionProtocol" where
  "demo_frame cmd sz bytes =
     \<lparr>command_id = cmd, payload_size = sz, bytes_read = sz, final_checksum = cmd + sz,
      payload = bytes @ replicate (16 - length bytes) 0\<rparr>"

definition stage :: "TransmissionProtocol \<Rightarrow> state \<Rightarrow> state" where
  "stage frame s = s\<lparr>lastProtocol := frame, lastProtocolValid := True\<rparr>"

text \<open>A frame with an unrecognized command code, and the state in which the host has
  sent it a second time after the engine processed it.\<close>

definition repeated_frame :: TransmissionProtocol where
  "repeated_frame = demo_frame 0x03FF 4 [0x12, 0x34, 0x56, 0x78]"

definition after_first :: state where
  "after_first = stage repeated_frame (rtc_loop (stage repeated_frame ready))"

text \<open>The Y2K patch enabled, its flag set in shared memory, the clock in 2005.\<close>

definition y2k_2005 :: state where
  "y2k_2005 = ready\<lparr>y2kPatchEnabled := True,
                    hw_rtc := Some \<lparr>year = 2005, month = 6, day = 15, dotw = 3, hour = 12,
                                    min_t = 30, sec = 10\<rparr>,
                    ram := store32 (\<lambda>a. 0) 0x2002F024 0xFFFFFFFF\<rparr>"

definition read_time_frame :: TransmissionProtocol where
  "read_time_frame = demo_frame 0x0301 4 [0xDE, 0xAD, 0xBE, 0xEF]"

definition dallas_cfg :: settings where
  "dallas_cfg = \<lparr>cfg_ntp_server_host = None, cfg_ntp_server_port = None,
                  cfg_utc_offset = None, cfg_y2k_patch = Some ''true'',
                  cfg_rtc_type = Some ''DALLAS''\<rparr>"

text \<open>
  Two frames with valid checksums, REENTRY_UNLOCK and REENTRY_LOCK; what is observed of a
  run (the program point, the flag, the staged command, the ReentryTrap and RandomToken
  fields); and the state after a pass on the first frame during which the second arrived.
\<close>

definition unlock_frame :: TransmissionProtocol where
  "unlock_frame = demo_frame 0x0304 4 [0xA1, 0xA2, 0xA3, 0xA4]"

definition lock_frame :: TransmissionProtocol where
  "lock_frame = demo_frame 0x0303 4 [0xB1, 0xB2, 0xB3, 0xB4]"

definition observe ::
    "(main_pc \<times> state) option \<Rightarrow> (main_pc \<times> bool \<times> u16 \<times> u32 \<times> u32) option" where
  "observe r =
     (case r of
        None \<Rightarrow> None
      | Some c \<Rightarrow>
          Some (fst c, lastProtocolValid (snd c), command_id (lastProtocol (snd c)),
                load32 (ram (snd c)) (memorySharedAddress (snd c) + RTCEMUL_REENTRY_TRAP),
                load32 (ram (snd c)) (memoryRandomTokenAddress (snd c))))"

definition lost_state :: state where
  "lost_state =
     (stage lock_frame ready)\<lparr>
        ram := store32 (store32 (store32 (\<lambda>a. 0) 0x2002F020 0) 0x2002F000 0xA4A3A2A1)
                 0x2002F004 0x3039,
        rand_pos := 1, lastProtocolValid := False\<rparr>"

text \<open>
  An NTP reply of 48 bytes with mode 4, stratum 1 and the transmit timestamp of
  2023-11-14 22:13:20 UTC (a Tuesday); a state in which the configured server port is
  1234 and the server's address is resolved.
\<close>

definition ntp_reply :: "u8 list" where
  "ntp_reply = [0x24, 0x01] @ replicate 38 0 @ [0xE8, 0xFE, 0x6F, 0x80] @ replicate 4 0"

definition custom_port :: state where
  "custom_port =
     power_on\<lparr>ntpServerPort := 1234,
               netTime := \<lparr>ntp_ipaddr = 0xC0A80001, ntp_pcb = Some 1,
                           ntp_server_found = False, ntp_error = False\<rparr>\<rparr>"

definition nov_2023 :: datetime_t where
  "nov_2023 = \<lparr>year = 2023, month = 11, day = 14, dotw = 2, hour = 22, min_t = 13, sec = 20\<rparr>"

text \<open>
  No settings stored; a network on which nothing ever arrives (DNS never resolves), each
  pass taking 200 ms; and one on which DNS resolves in the first pass and the server
  replies in the third, with the states the acquisition goes through. In
  \<open>late_reply\<close> every pass takes 201 ms, DNS resolves in the first pass, the request
  leaves in the second, and the reply arrives in the twenty-fifth pass, begun at 4.824 s,
  190 ms into it, at 5.014 s.
\<close>

definition no_settings :: settings where
  "no_settings = \<lparr>cfg_ntp_server_host = None, cfg_ntp_server_port = None,
                   cfg_utc_offset = None, cfg_y2k_patch = None, cfg_rtc_type = None\<rparr>"

definition silent_pass :: pass_env where
  "silent_pass = \<lparr>arrived = [], pbuf_alloc_ok = True, udp_sendto_ok = True,
                   dns_answer = ERR_INPROGRESS, arrived_after_dns = [], lag = 199999,
                   arrived_at = 0\<rparr>"


definition server_replies :: "nat \<Rightarrow> pass_env" where
  "server_replies k =
     (if k = 0 then silent_pass\<lparr>arrived_after_dns :=
                       [HostFound (Some ''pool.ntp.org'') (Some 0xC0A80001)]\<rparr>
      else if k = 2 then silent_pass\<lparr>arrived := [NtpRecv (Some ntp_reply) 0xC0A80001 123]\<rparr>
      else silent_pass)"

definition initialised :: state where
  "initialised =
     power_on\<lparr>ntpServerHost := NTP_DEFAULT_HOST,
               netTime := \<lparr>ntp_ipaddr = 0, ntp_pcb = Some 1, ntp_server_found = False,
                           ntp_error = False\<rparr>\<rparr>"

definition resolved :: state where
  "resolved = initialised\<lparr>netTime := \<lparr>ntp_ipaddr = 0xC0A80001, ntp_pcb = Some 1,
                                        ntp_server_found = True, ntp_error = False\<rparr>\<rparr>"

definition requested :: state where
  "requested = initialised\<lparr>netTime := \<lparr>ntp_ipaddr = 0xC0A80001, ntp_pcb = Some 1,
                                         ntp_server_found = False, ntp_error = False\<rparr>,
                            udp_out := [(0xC0A80001, 123, 0x1b # replicate 47 0)]\<rparr>"

definition synchronised :: state where
  "synchronised = requested\<lparr>rtcTime := nov_2023, hw_rtc := Some nov_2023\<rparr>"


section \<open>Basic facts\<close>

lemmas rtc_offsets =
  RTCEMUL_RANDOM_TOKEN_OFFSET_def RTCEMUL_RANDOM_TOKEN_SEED_OFFSET_def
  RTCEMUL_NTP_SUCCESS_def RTCEMUL_DATETIME_BCD_def RTCEMUL_DATETIME_MSDOS_def
  RTCEMUL_OLD_XBIOS_TRAP_def RTCEMUL_REENTRY_TRAP_def RTCEMUL_Y2K_PATCH_def
  RTCEMUL_SHARED_VARIABLES_def

lemmas rtc_commands =
  APP_RTCEMUL_def RTCEMUL_READ_TIME_def RTCEMUL_SAVE_VECTORS_def RTCEMUL_REENTRY_LOCK_def
  RTCEMUL_REENTRY_UNLOCK_def RTCEMUL_SET_SHARED_VAR_def

lemma offsets_values:
  "RTCEMUL_RANDOM_TOKEN_OFFSET = 0xF000" "RTCEMUL_RANDOM_TOKEN_SEED_OFFSET = 0xF004"
  "RTCEMUL_NTP_SUCCESS = 0xF008" "RTCEMUL_DATETIME_BCD = 0xF00C"
  "RTCEMUL_DATETIME_MSDOS = 0xF014" "RTCEMUL_OLD_XBIOS_TRAP = 0xF01C"
  "RTCEMUL_REENTRY_TRAP = 0xF020" "RTCEMUL_Y2K_PATCH = 0xF024"
  "RTCEMUL_SHARED_VARIABLES = 0xF02C"
  by (simp_all add: rtc_offsets)

lemma command_values:
  "RTCEMUL_READ_TIME = 0x0301" "RTCEMUL_SAVE_VECTORS = 0x0302" "RTCEMUL_REENTRY_LOCK = 0x0303"
  "RTCEMUL_REENTRY_UNLOCK = 0x0304" "RTCEMUL_SET_SHARED_VAR = 0x0305"
  by (simp_all add: rtc_commands)

lemma idx_values:
  "(ucast (ucast (0xF00C :: u32) :: u16) :: u32) = 0xF00C"
  "(ucast (ucast (0xF024 :: u32) :: u16) :: u32) = 0xF024"
  "(ucast (ucast (0xF014 :: u32) :: u16) :: u32) = 0xF014"
  by simp_all

lemma bytes_word:
  "(ucast (ucast v :: u8) :: u32) OR push_bit 8 (ucast (ucast (drop_bit 8 v) :: u8)) OR
   push_bit 16 (ucast (ucast (drop_bit 16 v) :: u8)) OR
   push_bit 24 (ucast (ucast (drop_bit 24 v) :: u8)) = v"
proof (rule bit_word_eqI)
  fix n assume "n < LENGTH(32)"
  then consider "n < 8" | "8 \<le> n \<and> n < 16" | "16 \<le> n \<and> n < 24" | "24 \<le> n \<and> n < 32"
    by fastforce
  then show "bit ((ucast (ucast v :: u8) :: u32) OR
                  push_bit 8 (ucast (ucast (drop_bit 8 v) :: u8)) OR
                  push_bit 16 (ucast (ucast (drop_bit 16 v) :: u8)) OR
                  push_bit 24 (ucast (ucast (drop_bit 24 v) :: u8))) n = bit v n"
  proof cases
    case 1 then show ?thesis by (simp add: bit_simps)
  next
    case 2 then show ?thesis by (auto simp add: bit_simps)
  next
    case 3 then show ?thesis by (auto simp add: bit_simps)
  next
    case 4 then show ?thesis by (auto simp add: bit_simps)
  qed
qed

lemma load32_store32_same: "load32 (store32 m a v) a = v"
  by (simp add: load32_def store32_def bytes_word)

lemma load32_store32_next: "load32 (store32 m (a + 4) v) a = load32 m a"
  by (simp add: load32_def store32_def)

lemma set_ikb_fields:
  "memorySharedAddress (set_ikb_datetime_msg a b c d e f s) = memorySharedAddress s \<and>
   memoryRandomTokenAddress (set_ikb_datetime_msg a b c d e f s) = memoryRandomTokenAddress s \<and>
   memoryRandomTokenSeedAddress (set_ikb_datetime_msg a b c d e f s) =
     memoryRandomTokenSeedAddress s \<and>
   rand_seq (set_ikb_datetime_msg a b c d e f s) = rand_seq s \<and>
   rand_pos (set_ikb_datetime_msg a b c d e f s) = rand_pos s \<and>
   lastProtocol (set_ikb_datetime_msg a b c d e f s) = lastProtocol s \<and>
   lastProtocolValid (set_ikb_datetime_msg a b c d e f s) = lastProtocolValid s \<and>
   y2kPatchEnabled (set_ikb_datetime_msg a b c d e f s) = y2kPatchEnabled s \<and>
   dallasClock (set_ikb_datetime_msg a b c d e f s) = dallasClock s"
  by (simp add: set_ikb_datetime_msg_def rtc_get_datetime_def Let_def split: option.split)

lemma rtc_command_fields:
  "memorySharedAddress (rtc_command s) = memorySharedAddress s \<and>
   memoryRandomTokenAddress (rtc_command s) = memoryRandomTokenAddress s \<and>
   memoryRandomTokenSeedAddress (rtc_command s) = memoryRandomTokenSeedAddress s \<and>
   rand_seq (rtc_command s) = rand_seq s \<and>
   rand_pos (rtc_command s) = rand_pos s \<and>
   lastProtocol (rtc_command s) = lastProtocol s \<and>
   lastProtocolValid (rtc_command s) = lastProtocolValid s \<and>
   y2kPatchEnabled (rtc_command s) = y2kPatchEnabled s"
  by (simp add: rtc_command_def Let_def set_ikb_fields)

lemma rtc_loop_body_ram:
  "memoryRandomTokenAddress s \<noteq> 0 \<Longrightarrow>
   ram (rtc_loop_body s) =
     store32 (store32 (ram (rtc_command s)) (memoryRandomTokenAddress s)
                (TPROTO_GET_RANDOM_TOKEN (payload (lastProtocol s))))
       (memoryRandomTokenSeedAddress s) (rand_seq s (rand_pos s))"
  by (simp add: rtc_loop_body_def Let_def rand_def rtc_command_fields
      TPROTO_SET_RANDOM_TOKEN_def)

lemma rtc_loop_body_rand_pos:
  "memoryRandomTokenAddress s \<noteq> 0 \<Longrightarrow> rand_pos (rtc_loop_body s) = Suc (rand_pos s)"
  by (simp add: rtc_loop_body_def Let_def rand_def rtc_command_fields)

lemma rtc_loop_ram:
  "lastProtocolValid s \<Longrightarrow> ram (rtc_loop s) = ram (rtc_loop_body s)"
  by (simp add: rtc_loop_def rtc_loop_clear_def)

lemma rtc_loop_rand_pos:
  "lastProtocolValid s \<Longrightarrow> rand_pos (rtc_loop s) = rand_pos (rtc_loop_body s)"
  by (simp add: rtc_loop_def rtc_loop_clear_def)

lemma rtc_loop_token_seed:
  assumes "lastProtocolValid s" and "memoryRandomTokenAddress s \<noteq> 0"
    and "memoryRandomTokenSeedAddress s = memoryRandomTokenAddress s + 4"
  shows "load32 (ram (rtc_loop s)) (memoryRandomTokenAddress s) =
           TPROTO_GET_RANDOM_TOKEN (payload (lastProtocol s))"
    and "load32 (ram (rtc_loop s)) (memoryRandomTokenSeedAddress s) = rand_seq s (rand_pos s)"
    and "rand_pos (rtc_loop s) = Suc (rand_pos s)"
  using assms
  by (simp_all add: rtc_loop_ram rtc_loop_rand_pos rtc_loop_body_ram rtc_loop_body_rand_pos
      load32_store32_same load32_store32_next)

lemma rtc_loop_fields:
  "memoryRandomTokenAddress (rtc_loop s) = memoryRandomTokenAddress s \<and>
   memoryRandomTokenSeedAddress (rtc_loop s) = memoryRandomTokenSeedAddress s \<and>
   memorySharedAddress (rtc_loop s) = memorySharedAddress s \<and>
   lastProtocol (rtc_loop s) = lastProtocol s \<and>
   \<not> lastProtocolValid (rtc_loop s)"
  by (simp add: rtc_loop_def rtc_loop_clear_def rtc_loop_body_def Let_def rand_def
      rtc_command_fields)

lemma after_first_facts:
  "lastProtocolValid after_first" "memoryRandomTokenAddress after_first = 0x2002F000"
  "memoryRandomTokenSeedAddress after_first = 0x2002F004"
  "lastProtocol after_first = repeated_frame"
  by (simp_all add: after_first_def stage_def rtc_loop_fields ready_def)

lemma after_first_token: "load32 (ram after_first) 0x2002F000 = 0x78563412"
proof -
  have "ram after_first = ram (rtc_loop (stage repeated_frame ready))"
    by (simp add: after_first_def stage_def)
  moreover have "load32 (ram (rtc_loop (stage repeated_frame ready)))
                   (memoryRandomTokenAddress (stage repeated_frame ready)) =
                 TPROTO_GET_RANDOM_TOKEN (payload (lastProtocol (stage repeated_frame ready)))"
    by (rule rtc_loop_token_seed) (simp_all add: stage_def ready_def)
  ultimately show ?thesis
    by (simp add: stage_def ready_def repeated_frame_def demo_frame_def
        TPROTO_GET_RANDOM_TOKEN_def payload_word32_def)
qed

lemma clamped_size_le: "clamped_size M p \<le> M"
  by (simp add: clamped_size_def Let_def)

lemma read_time_ram:
  assumes "command_id (lastProtocol s) = RTCEMUL_READ_TIME" and "y2kPatchEnabled s"
  shows "ram (rtc_command s) (memorySharedAddress s + 0xF00C) =
           add_bcd (to_bcd (word_of_int (c_mod (sint (year (rtcTime (rtc_get_datetime s)))) 100)))
                   (to_bcd 70)"
    and "load32 (ram (rtc_command s)) (memorySharedAddress s + 0xF024) =
           load32 (ram s) (memorySharedAddress s + 0xF024)"
  using assms
  by (simp_all add: rtc_command_def set_ikb_datetime_msg_def Let_def offsets_values idx_values
      store8_def store32_def load32_def WRITE_LONGWORD_RAW_def rtc_get_datetime_def
      split: option.split)

lemma rtc_loop_body_ram_null:
  "memoryRandomTokenAddress s = 0 \<Longrightarrow> ram (rtc_loop_body s) = ram (rtc_command s)"
  by (simp add: rtc_loop_body_def Let_def rtc_command_fields)

lemma token_writes_elsewhere:
  "store32 (store32 m (b + 0xF000) v) (b + 0xF004) w (b + 0xF00C) = m (b + 0xF00C)"
  "load32 (store32 (store32 m (b + 0xF000) v) (b + 0xF004) w) (b + 0xF024) = load32 m (b + 0xF024)"
  by (simp_all add: store32_def load32_def)

lemma read_time_loop_ram:
  assumes "lastProtocolValid s" and "command_id (lastProtocol s) = RTCEMUL_READ_TIME"
    and "y2kPatchEnabled s"
    and "memoryRandomTokenAddress s = memorySharedAddress s + RTCEMUL_RANDOM_TOKEN_OFFSET"
    and "memoryRandomTokenSeedAddress s = memorySharedAddress s + RTCEMUL_RANDOM_TOKEN_SEED_OFFSET"
  shows "ram (rtc_loop s) (memorySharedAddress s + RTCEMUL_DATETIME_BCD) =
           add_bcd (to_bcd (word_of_int (c_mod (sint (year (rtcTime (rtc_get_datetime s)))) 100)))
                   (to_bcd 70)"
    and "load32 (ram (rtc_loop s)) (memorySharedAddress s + RTCEMUL_Y2K_PATCH) =
           load32 (ram s) (memorySharedAddress s + RTCEMUL_Y2K_PATCH)"
proof -
  have r: "ram (rtc_loop s) = ram (rtc_loop_body s)"
    using assms(1) by (rule rtc_loop_ram)
  show "ram (rtc_loop s) (memorySharedAddress s + RTCEMUL_DATETIME_BCD) =
           add_bcd (to_bcd (word_of_int (c_mod (sint (year (rtcTime (rtc_get_datetime s)))) 100)))
                   (to_bcd 70)"
  proof (cases "memoryRandomTokenAddress s = 0")
    case True
    then show ?thesis
      using read_time_ram(1) [OF assms(2,3)]
      by (simp add: r rtc_loop_body_ram_null offsets_values)
  next
    case False
    then show ?thesis
      using read_time_ram(1) [OF assms(2,3)] assms(4,5)
      by (simp add: r rtc_loop_body_ram offsets_values token_writes_elsewhere)
  qed
  show "load32 (ram (rtc_loop s)) (memorySharedAddress s + RTCEMUL_Y2K_PATCH) =
           load32 (ram s) (memorySharedAddress s + RTCEMUL_Y2K_PATCH)"
  proof (cases "memoryRandomTokenAddress s = 0")
    case True
    then show ?thesis
      using read_time_ram(2) [OF assms(2,3)]
      by (simp add: r rtc_loop_body_ram_null offsets_values)
  next
    case False
    then show ?thesis
      using read_time_ram(2) [OF assms(2,3)] assms(4,5)
      by (simp add: r rtc_loop_body_ram offsets_values token_writes_elsewhere)
  qed
qed

lemma y2k_2005_facts:
  "lastProtocolValid (stage read_time_frame y2k_2005)"
  "command_id (lastProtocol (stage read_time_frame y2k_2005)) = RTCEMUL_READ_TIME"
  "y2kPatchEnabled (stage read_time_frame y2k_2005)"
  "c_mod (sint (year (rtcTime (rtc_get_datetime (stage read_time_frame y2k_2005))))) 100 = 5"
  "memorySharedAddress (stage read_time_frame y2k_2005) = 0x20020000"
  "memoryRandomTokenAddress (stage read_time_frame y2k_2005) = 0x2002F000"
  "memoryRandomTokenSeedAddress (stage read_time_frame y2k_2005) = 0x2002F004"
  "load32 (ram (stage read_time_frame y2k_2005)) 0x2002F024 = 0xFFFFFFFF"
  by (simp_all add: stage_def y2k_2005_def ready_def power_on_def read_time_frame_def
      demo_frame_def command_values rtc_get_datetime_def c_mod_def load32_store32_same)

lemma postinit_fields:
  "memorySharedAddress (postinit_shared_vars s) = memorySharedAddress s"
  "memoryRandomTokenAddress (postinit_shared_vars s) = memoryRandomTokenAddress s"
  "memoryRandomTokenSeedAddress (postinit_shared_vars s) = memoryRandomTokenSeedAddress s"
  "dallasClock (postinit_shared_vars s) = dallasClock s"
  "memorySharedAddress (postinit_rtc_type cfg s) = memorySharedAddress s"
  "memoryRandomTokenAddress (postinit_rtc_type cfg s) = memoryRandomTokenAddress s"
  "memoryRandomTokenSeedAddress (postinit_rtc_type cfg s) = memoryRandomTokenSeedAddress s"
  "memorySharedAddress (postinit_y2k_patch cfg s) = memorySharedAddress s"
  "memoryRandomTokenAddress (postinit_y2k_patch cfg s) = memoryRandomTokenAddress s"
  "memoryRandomTokenSeedAddress (postinit_y2k_patch cfg s) = memoryRandomTokenSeedAddress s"
  "dallasClock (postinit_y2k_patch cfg s) = dallasClock s"
  "memorySharedAddress (postinit_datetime s) = memorySharedAddress s"
  "memoryRandomTokenAddress (postinit_datetime s) = memoryRandomTokenAddress s"
  "memoryRandomTokenSeedAddress (postinit_datetime s) = memoryRandomTokenSeedAddress s"
  "y2kPatchEnabled (postinit_datetime s) = y2kPatchEnabled s"
  "dallasClock (postinit_datetime s) = dallasClock s"
  "y2kPatchEnabled (postinit_random_token s) = y2kPatchEnabled s"
  "dallasClock (postinit_random_token s) = dallasClock s"
  by (simp_all add: postinit_shared_vars_def postinit_rtc_type_def postinit_y2k_patch_def
      postinit_datetime_def postinit_random_token_def set_ikb_fields Let_def rand_def split_def
      split: option.split list.split)

lemma postinit_y2k_flag:
  assumes "cfg_y2k_patch cfg = Some (c # cs)" and "y2k_setting_enabled c"
  shows "y2kPatchEnabled (postinit_y2k_patch cfg s)"
    and "load32 (ram (postinit_y2k_patch cfg s)) (memorySharedAddress s + 0xF024) = 0xFFFFFFFF"
  using assms
  by (simp_all add: postinit_y2k_patch_def Let_def WRITE_LONGWORD_RAW_def offsets_values
      load32_store32_same)

lemma postinit_datetime_y2k_flag:
  "y2kPatchEnabled s \<Longrightarrow>
   load32 (ram (postinit_datetime s)) (memorySharedAddress s + 0xF024) =
     load32 (ram s) (memorySharedAddress s + 0xF024)"
  by (simp add: postinit_datetime_def set_ikb_datetime_msg_def Let_def offsets_values idx_values
      store8_def store32_def load32_def WRITE_LONGWORD_RAW_def rtc_get_datetime_def
      split: option.split)

lemma postinit_random_token_y2k_flag:
  "memoryRandomTokenAddress s = memorySharedAddress s + 0xF000 \<Longrightarrow>
   memoryRandomTokenSeedAddress s = memorySharedAddress s + 0xF004 \<Longrightarrow>
   load32 (ram (postinit_random_token s)) (memorySharedAddress s + 0xF024) =
     load32 (ram s) (memorySharedAddress s + 0xF024)"
  by (simp add: postinit_random_token_def Let_def rand_def TPROTO_SET_RANDOM_TOKEN_def
      token_writes_elsewhere)

lemma rtc_postinit_y2k_enabled:
  assumes "cfg_y2k_patch cfg = Some (c # cs)" and "y2k_setting_enabled c"
    and "memoryRandomTokenAddress s = memorySharedAddress s + RTCEMUL_RANDOM_TOKEN_OFFSET"
    and "memoryRandomTokenSeedAddress s = memorySharedAddress s + RTCEMUL_RANDOM_TOKEN_SEED_OFFSET"
  shows "y2kPatchEnabled (snd (rtc_postinit cfg s))"
    and "load32 (ram (snd (rtc_postinit cfg s))) (memorySharedAddress s + RTCEMUL_Y2K_PATCH) =
           0xFFFFFFFF"
proof -
  let ?s2 = "postinit_rtc_type cfg (postinit_shared_vars s)"
  let ?s3 = "postinit_y2k_patch cfg ?s2"
  let ?s4 = "postinit_datetime ?s3"
  have b2: "memorySharedAddress ?s2 = memorySharedAddress s" by (simp add: postinit_fields)
  have en: "y2kPatchEnabled ?s3" using assms(1,2) by (rule postinit_y2k_flag)
  have f3: "load32 (ram ?s3) (memorySharedAddress s + 0xF024) = 0xFFFFFFFF"
    using postinit_y2k_flag(2) [OF assms(1,2), of ?s2] by (simp add: b2)
  have b3: "memorySharedAddress ?s3 = memorySharedAddress s" by (simp add: postinit_fields)
  have f4: "load32 (ram ?s4) (memorySharedAddress s + 0xF024) = 0xFFFFFFFF"
    using postinit_datetime_y2k_flag [OF en] f3 by (simp add: b3)
  have a4: "memorySharedAddress ?s4 = memorySharedAddress s"
    "memoryRandomTokenAddress ?s4 = memorySharedAddress s + 0xF000"
    "memoryRandomTokenSeedAddress ?s4 = memorySharedAddress s + 0xF004"
    using assms(3,4) by (simp_all add: postinit_fields offsets_values)
  have f5: "load32 (ram (postinit_random_token ?s4)) (memorySharedAddress s + 0xF024) = 0xFFFFFFFF"
    using postinit_random_token_y2k_flag [of ?s4] a4 f4 by simp
  show "y2kPatchEnabled (snd (rtc_postinit cfg s))"
    using en by (simp add: rtc_postinit_def postinit_fields)
  show "load32 (ram (snd (rtc_postinit cfg s))) (memorySharedAddress s + RTCEMUL_Y2K_PATCH) =
           0xFFFFFFFF"
    using f5 by (simp add: rtc_postinit_def offsets_values)
qed

declare populate_from.simps [simp del]

lemma populate_from_nth:
  "length xs = 66 \<Longrightarrow>
   populate_from dc h i xs ! j =
     (if i \<le> j \<and> j < 66
      then (if bit h (j - 2) then write_address_bit_one dc else write_address_bit_zero dc)
      else xs ! j)"
proof (induction dc h i xs rule: populate_from.induct)
  case (1 dc hex_value i sequence)
  show ?case
  proof (cases "i < 66")
    case True
    let ?v = "if drop_bit (i - 2) hex_value AND 1 \<noteq> 0
              then write_address_bit_one dc else write_address_bit_zero dc"
    have v: "?v = (if bit hex_value (i - 2) then write_address_bit_one dc
                   else write_address_bit_zero dc)"
      by (simp add: and_one_eq bit_iff_odd_drop_bit mod_2_eq_odd)
    have len: "length (sequence[i := ?v]) = 66" using "1.prems" by simp
    have unfold: "populate_from dc hex_value i sequence =
                  populate_from dc hex_value (Suc i) (sequence[i := ?v])"
      using True by (subst populate_from.simps) simp
    show ?thesis
      unfolding unfold "1.IH"[OF True len]
      using True "1.prems" v by (auto simp: nth_list_update)
  next
    case False
    then show ?thesis by (subst populate_from.simps) auto
  qed
qed

lemma length_populate_from: "length (populate_from dc h i xs) = length xs"
proof (induction dc h i xs rule: populate_from.induct)
  case (1 dc hex_value i sequence)
  show ?case
  proof (cases "i < 66")
    case True
    with "1.IH" show ?thesis by (subst populate_from.simps) simp
  next
    case False
    then show ?thesis by (subst populate_from.simps) simp
  qed
qed

lemma postinit_rtc_type_dallas:
  "cfg_rtc_type cfg = Some ''DALLAS'' \<Longrightarrow>
   magic_sequence (dallasClock (postinit_rtc_type cfg s)) =
     populate_from
       ((dallasClock s)\<lparr>last_magic_found := 0, retries := 0,
                       magic_sequence_hex := 0x5ca33ac55ca33ac5,
                       read_address_bit := 0x9, write_address_bit_zero := 0x1,
                       write_address_bit_one := 0x3,
                       size_magic_sequence := 66, size_clock_sequence := 64,
                       rom_address := memorySharedAddress s\<rparr>)
       0x5ca33ac55ca33ac5 2 (magic_sequence (dallasClock s))"
  by (simp add: postinit_rtc_type_def Let_def populateMagicSequence_def)

lemma rtc_postinit_dallasClock:
  "dallasClock (snd (rtc_postinit cfg s)) = dallasClock (postinit_rtc_type cfg (postinit_shared_vars s))"
  by (simp add: rtc_postinit_def postinit_fields)

lemma run_pass: "run M ck [MainStep, MainStep] (AtEntry, s) = Some (AtEntry, rtc_loop s)"
  by (simp add: rtc_loop_def)

lemma rtc_loop_body_flag: "lastProtocolValid (rtc_loop_body s) = lastProtocolValid s"
  by (simp add: rtc_loop_body_def Let_def rand_def rtc_command_fields)

lemma rtc_loop_idle: "\<not> lastProtocolValid s \<Longrightarrow> rtc_loop s = s"
  by (simp add: rtc_loop_def rtc_loop_clear_def)

lemma irq_flag:
  "rtc_dma_irq_handler_lookup M ck addr completed s = Some s' \<Longrightarrow>
   ram s' = ram s \<and> memorySharedAddress s' = memorySharedAddress s"
  by (auto simp add: rtc_dma_irq_handler_lookup_def tprotocol_parse_def
      handle_protocol_command_def handle_protocol_checksum_error_def Let_def
      split: if_splits option.splits)

lemma irq_stages:
  assumes "addr AND 0x00010000 \<noteq> 0" and "final_checksum frame = ck frame"
    and "rtc_dma_irq_handler_lookup M ck addr (Some frame) s = Some s'"
  shows "lastProtocolValid s' \<and> command_id (lastProtocol s') = command_id frame"
  using assms
  by (auto simp add: rtc_dma_irq_handler_lookup_def tprotocol_parse_def
      handle_protocol_command_def Let_def split: option.splits)

lemma unlock_body:
  "rtc_loop_body (stage unlock_frame ready) =
     (stage unlock_frame ready)\<lparr>
        ram := store32 (store32 (store32 (\<lambda>a. 0) 0x2002F020 0) 0x2002F000 0xA4A3A2A1)
                 0x2002F004 0x3039,
        rand_pos := 1\<rparr>"
  by (simp add: rtc_loop_body_def rtc_command_def Let_def stage_def ready_def power_on_def
      unlock_frame_def demo_frame_def command_values offsets_values rand_def
      TPROTO_GET_RANDOM_TOKEN_def payload_word32_def TPROTO_SET_RANDOM_TOKEN_def
      WRITE_LONGWORD_RAW_def)

lemma run_interrupted:
  "lastProtocolValid s \<Longrightarrow>
   run M ck [MainStep, Interrupt addr completed, MainStep] (AtEntry, s) =
     (case rtc_dma_irq_handler_lookup M ck addr completed (rtc_loop_body s) of
        None \<Rightarrow> None
      | Some s' \<Rightarrow> Some (AtEntry, rtc_loop_clear s'))"
  by (simp split: option.splits)

lemma run_append:
  "run M ck (es @ fs) c = (case run M ck es c of None \<Rightarrow> None | Some c' \<Rightarrow> run M ck fs c')"
  by (induction es arbitrary: c) (simp_all split: option.splits)

lemma interrupted_pass:
  "run 16 demo_checksum [MainStep, Interrupt 0x00018000 (Some lock_frame), MainStep]
     (AtEntry, stage unlock_frame ready) = Some (AtEntry, lost_state)"
proof -
  have v: "lastProtocolValid (stage unlock_frame ready)" by (simp add: stage_def)
  show ?thesis
    unfolding run_interrupted [OF v] unlock_body
    by (simp add: rtc_dma_irq_handler_lookup_def tprotocol_parse_def
        handle_protocol_command_def clamped_size_def memcpy_def Let_def rtc_loop_clear_def
        stage_def ready_def power_on_def lock_frame_def unlock_frame_def demo_frame_def
        demo_checksum_def zero_frame_def lost_state_def)
qed

lemma lost_state_idle: "\<not> lastProtocolValid lost_state"
  by (simp add: lost_state_def)

lemma ntpRecvCB_discards:
  assumes "case p of None \<Rightarrow> True
           | Some b \<Rightarrow> length b \<noteq> NTP_MSG_LEN \<or> ntp_ipaddr (netTime s) \<noteq> addr \<or>
                      uint port \<noteq> NTP_DEFAULT_PORT \<or> pbuf_get_at b 0 AND 0x07 \<noteq> 4 \<or>
                      pbuf_get_at b 1 = 0"
  shows "ntpRecvCB gmtime p addr port s = s"
  using assms by (auto simp add: ntpRecvCB_def Let_def split: option.splits)

lemma ntp_reply_fields:
  "length ntp_reply = 48" "pbuf_get_at ntp_reply 0 = 0x24" "pbuf_get_at ntp_reply 1 = 1"
  "transmit_timestamp ntp_reply = 0xE8FE6F80"
  by (simp_all add: ntp_reply_def pbuf_get_at_def transmit_timestamp_def nth_append)

lemma gmtime_nov_2023:
  "gmtime_civil 1700000000 =
     Some \<lparr>tm_sec = 20, tm_min = 13, tm_hour = 22, tm_mday = 14, tm_mon = 10, tm_year = 123,
            tm_wday = 2\<rparr>"
  by code_simp

lemma valid_nov_2023: "valid_datetime nov_2023"
  by (simp add: valid_datetime_def nov_2023_def)

lemma ntpRecvCB_reply:
  "ntp_ipaddr (netTime s) = addr \<Longrightarrow> utcOffsetSeconds s = 0 \<Longrightarrow>
   ntpRecvCB gmtime_civil (Some ntp_reply) addr 123 s =
     s\<lparr>rtcTime := nov_2023, hw_rtc := Some nov_2023\<rparr>"
proof -
  assume a: "ntp_ipaddr (netTime s) = addr" and o: "utcOffsetSeconds s = 0"
  have ts: "uint ((3908988800 :: u32) - word_of_int NTP_DELTA) = 1700000000"
    by (simp add: NTP_DELTA_def)
  have st: "pbuf_get_at ntp_reply (Suc 0) = 1"
    using ntp_reply_fields(3) by simp
  show ?thesis
    using valid_nov_2023 [unfolded nov_2023_def] a o
    by (simp add: ntpRecvCB_def Let_def ntp_reply_fields st NTP_MSG_LEN_def
        NTP_DEFAULT_PORT_def ts gmtime_nov_2023 rtc_set_datetime_def nov_2023_def)
qed

declare query_loop.simps [simp del]








lemma query_loop_deadline:
  assumes "year (rtcTime (snd (query_loop gm env k now dl ds))) = 0"
    and "now = pass_start env t0 k"
  shows "\<exists>j. dl \<le> pass_start env t0 j"
  using assms
proof (induction gm env k now dl ds rule: query_loop.induct)
  case (1 gmtime env k now rtcTimeoutSec ds)
  show ?case
  proof (cases "now < rtcTimeoutSec \<and> year (rtcTime (snd ds)) = 0")
    case True
    have n: "now + Suc (lag (env k)) = pass_start env t0 (Suc k)" using "1.prems"(2) by simp
    have y: "year (rtcTime (snd (query_loop gmtime env (Suc k) (now + Suc (lag (env k)))
                        rtcTimeoutSec (query_pass gmtime (env k) ds)))) = 0"
      using "1.prems"(1) True by (subst (asm) query_loop.simps) simp
    show ?thesis using "1.IH" [OF True y n] .
  next
    case False
    have "year (rtcTime (snd ds)) = 0"
      using "1.prems"(1) False by (subst (asm) query_loop.simps) auto
    with False have "rtcTimeoutSec \<le> pass_start env t0 k" using "1.prems"(2) by simp
    then show ?thesis by blast
  qed
qed

lemma ntp_wait_deadline:
  assumes "year (rtcTime (ntp_wait gm cfg pcb env t0 s)) = 0"
  shows "\<exists>j. t0 + 5 * 1000 * 1000 \<le> pass_start env t0 j"
proof -
  have p0: "t0 = pass_start env t0 0" by simp
  show ?thesis
    using assms unfolding ntp_wait_def Let_def
    by (rule query_loop_deadline [OF _ p0])
qed


lemma pass0:
  "query_pass gmtime_civil (server_replies 0) (False, initialised) = (True, resolved)"
  by (simp add: query_pass_def Let_def server_replies_def silent_pass_def initialised_def
      resolved_def power_on_def dns_gethostbyname_def hostFoundCB_def)

lemma pass1:
  "query_pass gmtime_civil (server_replies (Suc 0)) (True, resolved) = (True, requested)"
  by (simp add: query_pass_def Let_def server_replies_def silent_pass_def initialised_def
      resolved_def requested_def power_on_def set_internal_rtc_def NTP_MSG_LEN_def
      NTP_DEFAULT_PORT_def)

lemma pass2:
  "query_pass gmtime_civil (server_replies (Suc (Suc 0))) (True, requested) =
     (True, synchronised)"
proof -
  have a: "ntp_ipaddr (netTime requested) = 0xC0A80001" "utcOffsetSeconds requested = 0"
    by (simp_all add: requested_def initialised_def power_on_def)
  have p: "ntp_pcb (netTime requested) = Some 1"
    by (simp add: requested_def)
  have e: "arrived (server_replies (Suc (Suc 0))) = [NtpRecv (Some ntp_reply) 0xC0A80001 123]"
    "arrived_after_dns (server_replies (Suc (Suc 0))) = []"
    by (simp_all add: server_replies_def silent_pass_def)
  have d: "deliver_all gmtime_civil (arrived (server_replies (Suc (Suc 0)))) requested =
             synchronised"
    unfolding e by (simp add: p ntpRecvCB_reply [OF a] synchronised_def)
  have f: "ntp_server_found (netTime synchronised) = False"
    "ntp_error (netTime synchronised) = False"
    by (simp_all add: synchronised_def requested_def)
  show ?thesis
    unfolding query_pass_def Let_def fst_conv snd_conv d
    by (simp add: f)
qed

lemma ntp_wait_prologue:
  "ntp_wait gmtime_civil no_settings (Some 1) env t0 power_on =
     snd (query_loop gmtime_civil env 0 t0 (t0 + 5 * 1000 * 1000) (False, initialised))"
  by (simp add: ntp_wait_def Let_def no_settings_def rtc_init_def ntp_init_def initialised_def
      power_on_def)

lemma rtc_queryNTPTime_success_run:
  "rtc_queryNTPTime gmtime_civil no_settings (Some 1) server_replies 0 power_on =
     (0, synchronised)"
proof -
  have y: "year (rtcTime initialised) = 0" "year (rtcTime resolved) = 0"
    "year (rtcTime requested) = 0" "year (rtcTime synchronised) = 2023"
    by (simp_all add: initialised_def resolved_def requested_def synchronised_def power_on_def
        nov_2023_def)
  have l: "lag (server_replies k) = 199999" for k
    by (simp add: server_replies_def silent_pass_def)
  have l3: "query_loop gmtime_civil server_replies (Suc (Suc (Suc 0))) t 5000000
              (True, synchronised) = (True, synchronised)" for t
    by (subst query_loop.simps) (simp add: y)
  have l2: "query_loop gmtime_civil server_replies (Suc (Suc 0)) 400000 5000000
              (True, requested) = (True, synchronised)"
    by (subst query_loop.simps) (simp add: y l pass2 l3)
  have l1: "query_loop gmtime_civil server_replies (Suc 0) 200000 5000000
              (True, resolved) = (True, synchronised)"
    by (subst query_loop.simps) (simp add: y l pass1 l2)
  have l0: "query_loop gmtime_civil server_replies 0 0 5000000
              (False, initialised) = (True, synchronised)"
    by (subst query_loop.simps) (simp add: y l pass0 l1)
  have g: "rtc_get_datetime synchronised = synchronised"
    by (simp add: rtc_get_datetime_def synchronised_def)
  show ?thesis
    unfolding rtc_queryNTPTime_def ntp_wait_prologue Let_def
    by (simp add: l0 y g)
qed





























section \<open>Results: the datetime codec\<close>

text \<open>
  C8. The claim: for all pairs of valid BCD bytes, \<open>add_bcd\<close> returns the BCD encoding
  of the decimal sum modulo 100. The code does not: the tens sum is kept in eight bits, so
  a carry out of bit 7 is gone before the \<open>0x1F0\<close> mask looks for it. At the valid
  operands \<open>0x90\<close> and \<open>0x70\<close> (year 90 plus the patch constant 70) the code returns
  \<open>0x00\<close>, while 90 + 70 = 160 is 60 modulo 100, whose encoding is \<open>0x60\<close>.
\<close>

theorem add_bcd_tens_carry_lost:
  "valid_bcd 0x90 \<and> valid_bcd 0x70 \<and> bcd_value 0x90 = 90 \<and> bcd_value 0x70 = 70 \<and>
   add_bcd 0x90 0x70 = 0x00 \<and>
   to_bcd (of_nat ((bcd_value 0x90 + bcd_value 0x70) mod 100)) = 0x60"
  by (simp add: add_bcd_def to_bcd_def valid_bcd_def bcd_value_def Let_def)

section \<open>Results: the command dispatcher\<close>

text \<open>
  C6. For every raw frame, \<open>handle_protocol_command\<close> clamps the payload size to
  \<open>MAX_PROTOCOL_PAYLOAD_SIZE\<close> before it copies: with both payload arrays of that
  capacity \<open>M\<close>, the call never faults, the number of bytes copied is the minimum of the
  frame's \<open>payload_size\<close> and \<open>M\<close>, the staged array keeps its length, its first
  bytes are the frame's and its remaining bytes are untouched, and the flag is raised.
\<close>

theorem handle_protocol_command_clamps:
  assumes "length (payload protocol) = M" and "length (payload (lastProtocol s)) = M"
  shows "\<exists>s'. handle_protocol_command M protocol s = Some s' \<and>
           clamped_size M protocol = min (unat (payload_size protocol)) M \<and>
           clamped_size M protocol \<le> M \<and>
           length (payload (lastProtocol s')) = M \<and>
           take (clamped_size M protocol) (payload (lastProtocol s')) =
             take (clamped_size M protocol) (payload protocol) \<and>
           drop (clamped_size M protocol) (payload (lastProtocol s')) =
             drop (clamped_size M protocol) (payload (lastProtocol s)) \<and>
           lastProtocolValid s'"
proof -
  let ?n = "clamped_size M protocol"
  have n: "?n \<le> M" by (rule clamped_size_le)
  have mn: "?n = min (unat (payload_size protocol)) M"
    by (simp add: clamped_size_def Let_def min_def)
  have cp: "memcpy (payload (lastProtocol s)) (payload protocol) ?n =
              Some (take ?n (payload protocol) @ drop ?n (payload (lastProtocol s)))"
    using assms n by (simp add: memcpy_def)
  show ?thesis
    using assms n mn cp by (simp add: handle_protocol_command_def Let_def)
qed

theorem handle_protocol_command_clamps_witness:
  "length (payload (demo_frame 0x0301 0xFFFF [1, 2, 3, 4])) = 16 \<and>
   length (payload (lastProtocol power_on)) = 16 \<and>
   clamped_size 16 (demo_frame 0x0301 0xFFFF [1, 2, 3, 4]) = 16 \<and>
   (\<exists>s'. handle_protocol_command 16 (demo_frame 0x0301 0xFFFF [1, 2, 3, 4]) power_on = Some s' \<and>
      length (payload (lastProtocol s')) = 16 \<and> lastProtocolValid s')"
proof -
  have a: "length (payload (demo_frame 0x0301 0xFFFF [1, 2, 3, 4])) = 16"
    by (simp add: demo_frame_def)
  have b: "length (payload (lastProtocol power_on)) = 16"
    by (simp add: power_on_def zero_frame_def)
  have c: "clamped_size 16 (demo_frame 0x0301 0xFFFF [1, 2, 3, 4]) = 16"
    by (simp add: clamped_size_def demo_frame_def)
  from handle_protocol_command_clamps [OF a b] a b c show ?thesis by auto
qed

text \<open>
  C5. A frame whose checksum field does not match the checksum of its header and payload
  is dropped by the interrupt handler with no state mutation: the whole state is
  unchanged, so no shared-memory byte changes, the staged frame and the frame-ready flag
  are as before, and no command handler runs for it.
\<close>

theorem checksum_error_drops_frame:
  assumes "final_checksum frame \<noteq> checksum frame"
  shows "rtc_dma_irq_handler_lookup M checksum addr (Some frame) s = Some s"
  using assms
  by (simp add: rtc_dma_irq_handler_lookup_def tprotocol_parse_def
      handle_protocol_checksum_error_def)

theorem checksum_error_drops_frame_witness:
  "final_checksum ((demo_frame 0x0303 4 [1, 2, 3, 4])\<lparr>final_checksum := 0\<rparr>) \<noteq>
     demo_checksum ((demo_frame 0x0303 4 [1, 2, 3, 4])\<lparr>final_checksum := 0\<rparr>) \<and>
   rtc_dma_irq_handler_lookup 16 demo_checksum 0x00018000
     (Some ((demo_frame 0x0303 4 [1, 2, 3, 4])\<lparr>final_checksum := 0\<rparr>))
     (stage repeated_frame ready) = Some (stage repeated_frame ready)"
proof -
  have a: "final_checksum ((demo_frame 0x0303 4 [1, 2, 3, 4])\<lparr>final_checksum := 0\<rparr>) \<noteq>
     demo_checksum ((demo_frame 0x0303 4 [1, 2, 3, 4])\<lparr>final_checksum := 0\<rparr>)"
    by (simp add: demo_frame_def demo_checksum_def)
  from a checksum_error_drops_frame
      [where frame = "(demo_frame 0x0303 4 [1, 2, 3, 4])\<lparr>final_checksum := 0\<rparr>"
         and checksum = demo_checksum and M = 16 and addr = "0x00018000"
         and s = "stage repeated_frame ready"]
  show ?thesis by simp
qed

section \<open>Results: the random token\<close>

text \<open>
  C2. After \<open>rtc_loop\<close> processes a staged frame, the RandomToken field holds the
  32-bit token read from the first four bytes of that frame's payload (the engine echoes
  the host's token), and only the RandomTokenSeed field receives a value of \<open>rand()\<close>:
  exactly one value of the stream is consumed, and it is the seed. The fields are those at
  the addresses \<open>rtc_preinit\<close> sets: the token address is not null and the seed lies
  four bytes after it.
\<close>

theorem rtc_loop_echoes_token:
  assumes "lastProtocolValid s" and "memoryRandomTokenAddress s \<noteq> 0"
    and "memoryRandomTokenSeedAddress s = memoryRandomTokenAddress s + 4"
  shows "load32 (ram (rtc_loop s)) (memoryRandomTokenAddress s) =
           TPROTO_GET_RANDOM_TOKEN (payload (lastProtocol s)) \<and>
         load32 (ram (rtc_loop s)) (memoryRandomTokenSeedAddress s) = rand_seq s (rand_pos s) \<and>
         rand_pos (rtc_loop s) = Suc (rand_pos s)"
  using rtc_loop_token_seed [OF assms] by simp

theorem rtc_loop_echoes_token_witness:
  "lastProtocolValid (stage (demo_frame 0x0303 4 [0xDE, 0xAD, 0xBE, 0xEF]) ready) \<and>
   memoryRandomTokenAddress (stage (demo_frame 0x0303 4 [0xDE, 0xAD, 0xBE, 0xEF]) ready) = 0x2002F000 \<and>
   memoryRandomTokenSeedAddress (stage (demo_frame 0x0303 4 [0xDE, 0xAD, 0xBE, 0xEF]) ready) = 0x2002F004 \<and>
   load32 (ram (rtc_loop (stage (demo_frame 0x0303 4 [0xDE, 0xAD, 0xBE, 0xEF]) ready))) 0x2002F000 = 0xEFBEADDE \<and>
   load32 (ram (rtc_loop (stage (demo_frame 0x0303 4 [0xDE, 0xAD, 0xBE, 0xEF]) ready))) 0x2002F004 = 0x3039 \<and>
   rand_pos (rtc_loop (stage (demo_frame 0x0303 4 [0xDE, 0xAD, 0xBE, 0xEF]) ready)) = 1"
  using rtc_loop_echoes_token [of "stage (demo_frame 0x0303 4 [0xDE, 0xAD, 0xBE, 0xEF]) ready"]
  by (simp add: stage_def ready_def power_on_def demo_frame_def TPROTO_GET_RANDOM_TOKEN_def
      payload_word32_def)

text \<open>
  C1, as stated, fails: the claim has the RandomToken regenerated from a pseudo-random
  source and different after every command. The engine writes back the token it read
  from the frame. When the host repeats a frame (here one with the unrecognized command
  code \<open>0x03FF\<close>), the token after the second pass equals the token before it.
\<close>

theorem repeated_frame_keeps_token:
  "lastProtocolValid after_first \<and>
   command_id (lastProtocol after_first) = 0x03FF \<and>
   load32 (ram (rtc_loop after_first)) (memoryRandomTokenAddress after_first) =
     load32 (ram after_first) (memoryRandomTokenAddress after_first)"
proof -
  have "load32 (ram (rtc_loop after_first)) (memoryRandomTokenAddress after_first) =
          TPROTO_GET_RANDOM_TOKEN (payload (lastProtocol after_first))"
    by (rule rtc_loop_token_seed) (simp_all add: after_first_facts)
  then show ?thesis
    by (simp add: after_first_facts after_first_token repeated_frame_def demo_frame_def
        TPROTO_GET_RANDOM_TOKEN_def payload_word32_def)
qed

text \<open>
  C1, amended. For every staged frame processed by \<open>rtc_loop\<close>, whatever its command
  code, the RandomToken after the pass differs from its value before exactly when the
  token in the frame's payload differs from that value, and the RandomTokenSeed is
  regenerated from the pseudo-random source.
\<close>

theorem rtc_loop_token_changes_iff:
  assumes "lastProtocolValid s" and "memoryRandomTokenAddress s \<noteq> 0"
    and "memoryRandomTokenSeedAddress s = memoryRandomTokenAddress s + 4"
  shows "(load32 (ram (rtc_loop s)) (memoryRandomTokenAddress s) \<noteq>
            load32 (ram s) (memoryRandomTokenAddress s)) =
         (TPROTO_GET_RANDOM_TOKEN (payload (lastProtocol s)) \<noteq>
            load32 (ram s) (memoryRandomTokenAddress s)) \<and>
         load32 (ram (rtc_loop s)) (memoryRandomTokenSeedAddress s) = rand_seq s (rand_pos s)"
  using rtc_loop_token_seed [OF assms] by simp

theorem rtc_loop_token_changes_iff_witness:
  "lastProtocolValid (stage repeated_frame ready) \<and>
   memoryRandomTokenAddress (stage repeated_frame ready) = 0x2002F000 \<and>
   memoryRandomTokenSeedAddress (stage repeated_frame ready) = 0x2002F004 \<and>
   load32 (ram (stage repeated_frame ready)) 0x2002F000 = 0 \<and>
   TPROTO_GET_RANDOM_TOKEN (payload (lastProtocol (stage repeated_frame ready))) = 0x78563412 \<and>
   load32 (ram (rtc_loop (stage repeated_frame ready))) 0x2002F000 \<noteq>
     load32 (ram (stage repeated_frame ready)) 0x2002F000 \<and>
   load32 (ram (rtc_loop (stage repeated_frame ready))) 0x2002F004 = 0x3039"
  using rtc_loop_token_changes_iff [of "stage repeated_frame ready"]
  by (simp add: stage_def ready_def power_on_def repeated_frame_def demo_frame_def
      TPROTO_GET_RANDOM_TOKEN_def payload_word32_def load32_def)

section \<open>Results: the Y2K patch\<close>

text \<open>
  C3, as stated, fails: the claim has READ_TIME store
  \<open>add_bcd (to_bcd 5) (to_bcd 50)\<close>, which is \<open>0x55\<close>, for a clock whose two-digit
  year is 5. The constant in the code is \<open>(2000 - 1980) + (80 - 30)\<close>, that is 70: with
  the patch enabled and the clock in 2005, the BCD year byte in shared memory is
  \<open>0x75\<close>.
\<close>

theorem read_time_y2k_not_plus_50:
  "y2kPatchEnabled (stage read_time_frame y2k_2005) \<and>
   c_mod (sint (year (rtcTime (rtc_get_datetime (stage read_time_frame y2k_2005))))) 100 = 5 \<and>
   ram (rtc_loop (stage read_time_frame y2k_2005)) (0x20020000 + RTCEMUL_DATETIME_BCD) = 0x75 \<and>
   add_bcd (to_bcd 5) (to_bcd 50) = 0x55 \<and>
   ram (rtc_loop (stage read_time_frame y2k_2005)) (0x20020000 + RTCEMUL_DATETIME_BCD) \<noteq>
     add_bcd (to_bcd 5) (to_bcd 50)"
proof -
  have "add_bcd (to_bcd 5) (to_bcd 50) = 0x55" "add_bcd (to_bcd 5) (to_bcd 70) = 0x75"
    by (simp_all add: add_bcd_def to_bcd_def Let_def)
  then show ?thesis
    using read_time_loop_ram(1) [of "stage read_time_frame y2k_2005"]
    by (simp add: y2k_2005_facts offsets_values)
qed

text \<open>
  C3, amended. With the Y2K patch enabled, READ_TIME for a clock whose two-digit year is 5
  stores the BCD year \<open>add_bcd (to_bcd 5) (to_bcd 70)\<close>, which is \<open>0x75\<close>, and
  leaves the Y2kPatch flag in shared memory as it was. (\<open>rtc_postinit\<close> wrote
  \<open>0xFFFFFFFF\<close> there when the setting enabled the patch: lemma
  \<open>rtc_postinit_y2k_enabled\<close>.) The addresses are those \<open>rtc_preinit\<close> sets.
\<close>

theorem read_time_y2k_year:
  assumes "lastProtocolValid s" and "command_id (lastProtocol s) = RTCEMUL_READ_TIME"
    and "y2kPatchEnabled s"
    and "c_mod (sint (year (rtcTime (rtc_get_datetime s)))) 100 = 5"
    and "memoryRandomTokenAddress s = memorySharedAddress s + RTCEMUL_RANDOM_TOKEN_OFFSET"
    and "memoryRandomTokenSeedAddress s = memorySharedAddress s + RTCEMUL_RANDOM_TOKEN_SEED_OFFSET"
  shows "ram (rtc_loop s) (memorySharedAddress s + RTCEMUL_DATETIME_BCD) =
           add_bcd (to_bcd 5) (to_bcd 70) \<and>
         add_bcd (to_bcd 5) (to_bcd 70) = 0x75 \<and>
         load32 (ram (rtc_loop s)) (memorySharedAddress s + RTCEMUL_Y2K_PATCH) =
           load32 (ram s) (memorySharedAddress s + RTCEMUL_Y2K_PATCH)"
proof -
  have "add_bcd (to_bcd 5) (to_bcd 70) = 0x75"
    by (simp add: add_bcd_def to_bcd_def Let_def)
  then show ?thesis
    using read_time_loop_ram [OF assms(1,2,3,5,6)] assms(4) by simp
qed

theorem read_time_y2k_year_witness:
  "lastProtocolValid (stage read_time_frame y2k_2005) \<and>
   command_id (lastProtocol (stage read_time_frame y2k_2005)) = RTCEMUL_READ_TIME \<and>
   y2kPatchEnabled (stage read_time_frame y2k_2005) \<and>
   c_mod (sint (year (rtcTime (rtc_get_datetime (stage read_time_frame y2k_2005))))) 100 = 5 \<and>
   ram (rtc_loop (stage read_time_frame y2k_2005)) 0x2002F00C = 0x75 \<and>
   load32 (ram (rtc_loop (stage read_time_frame y2k_2005))) 0x2002F024 = 0xFFFFFFFF"
  using read_time_y2k_year [of "stage read_time_frame y2k_2005"]
  by (simp add: y2k_2005_facts offsets_values)

section \<open>Results: the Dallas magic sequence\<close>

text \<open>
  C10. \<open>populateMagicSequence\<close>, as \<open>rtc_postinit\<close> runs it for the RTC type
  \<open>DALLAS\<close>, leaves the first two of the 66 elements of the magic sequence unchanged
  and sets every element \<open>i\<close> from 2 to 65 to the write-one encoding \<open>0x3\<close> if bit
  \<open>i - 2\<close> of the constant \<open>0x5ca33ac55ca33ac5\<close> is 1, and to the write-zero
  encoding \<open>0x1\<close> otherwise.
\<close>

theorem rtc_postinit_magic_sequence:
  assumes "cfg_rtc_type cfg = Some ''DALLAS''"
    and "length (magic_sequence (dallasClock s)) = 66"
  shows "length (magic_sequence (dallasClock (snd (rtc_postinit cfg s)))) = 66 \<and>
         magic_sequence (dallasClock (snd (rtc_postinit cfg s))) ! 0 =
           magic_sequence (dallasClock s) ! 0 \<and>
         magic_sequence (dallasClock (snd (rtc_postinit cfg s))) ! 1 =
           magic_sequence (dallasClock s) ! 1 \<and>
         (\<forall>i. 2 \<le> i \<and> i < 66 \<longrightarrow>
            magic_sequence (dallasClock (snd (rtc_postinit cfg s))) ! i =
              (if bit (0x5ca33ac55ca33ac5 :: u64) (i - 2) then 0x3 else 0x1))"
proof -
  let ?dc = "(dallasClock s)\<lparr>last_magic_found := 0, retries := 0,
                       magic_sequence_hex := 0x5ca33ac55ca33ac5,
                       read_address_bit := 0x9, write_address_bit_zero := 0x1,
                       write_address_bit_one := 0x3,
                       size_magic_sequence := 66, size_clock_sequence := 64,
                       rom_address := memorySharedAddress s\<rparr>"
  have seq: "magic_sequence (dallasClock (snd (rtc_postinit cfg s))) =
               populate_from ?dc 0x5ca33ac55ca33ac5 2 (magic_sequence (dallasClock s))"
    using postinit_rtc_type_dallas [OF assms(1), of "postinit_shared_vars s"]
    by (simp add: rtc_postinit_dallasClock postinit_fields)
  show ?thesis
    unfolding seq using assms(2)
    by (simp add: length_populate_from populate_from_nth)
qed

theorem rtc_postinit_magic_sequence_witness:
  "cfg_rtc_type dallas_cfg = Some ''DALLAS'' \<and>
   length (magic_sequence (dallasClock power_on)) = 66 \<and>
   magic_sequence (dallasClock (snd (rtc_postinit dallas_cfg power_on))) ! 0 = 0 \<and>
   magic_sequence (dallasClock (snd (rtc_postinit dallas_cfg power_on))) ! 2 = 0x3 \<and>
   magic_sequence (dallasClock (snd (rtc_postinit dallas_cfg power_on))) ! 3 = 0x1"
proof -
  have a: "cfg_rtc_type dallas_cfg = Some ''DALLAS''" by (simp add: dallas_cfg_def)
  have b: "length (magic_sequence (dallasClock power_on)) = 66" by (simp add: power_on_def)
  have z: "magic_sequence (dallasClock power_on) ! 0 = 0" by (simp add: power_on_def)
  note t = rtc_postinit_magic_sequence [OF a b]
  from t have all: "\<forall>i. 2 \<le> i \<and> i < 66 \<longrightarrow>
            magic_sequence (dallasClock (snd (rtc_postinit dallas_cfg power_on))) ! i =
              (if bit (0x5ca33ac55ca33ac5 :: u64) (i - 2) then 0x3 else 0x1)" by (rule conjunct2 [THEN conjunct2, THEN conjunct2])
  have i2: "magic_sequence (dallasClock (snd (rtc_postinit dallas_cfg power_on))) ! 2 = 0x3"
    using all [rule_format, of 2] by simp
  have i3: "magic_sequence (dallasClock (snd (rtc_postinit dallas_cfg power_on))) ! 3 = 0x1"
    using all [rule_format, of 3] by simp
  from a b t z i2 i3 show ?thesis by simp
qed

section \<open>Results: the frame-ready flag\<close>

text \<open>
  C9, as stated, fails: the claim has the engine clear the flag on entry, before it
  interprets the frame, so that a frame staged meanwhile is kept for the next pass. In
  the code \<open>lastProtocolValid = false\<close> is the last statement of \<open>rtc_loop\<close>. After
  the interpretation of a REENTRY_UNLOCK frame the flag is still set (and the token
  already echoed); a REENTRY_LOCK frame staged by the interrupt at that point has its flag
  cleared by the end of the pass, and two further passes leave it unprocessed: it sits in
  the staging buffer, the ReentryTrap is still 0 and the token is still the first frame's.
\<close>

theorem frame_staged_during_pass_is_lost:
  "observe (run 16 demo_checksum [MainStep] (AtEntry, stage unlock_frame ready)) =
     Some (BeforeClear, True, 0x0304, 0, 0xA4A3A2A1) \<and>
   observe (run 16 demo_checksum
              ([MainStep, Interrupt 0x00018000 (Some lock_frame), MainStep] @
               [MainStep, MainStep])
              (AtEntry, stage unlock_frame ready)) =
     Some (AtEntry, False, 0x0303, 0, 0xA4A3A2A1)"
proof -
  have one: "run 16 demo_checksum [MainStep] (AtEntry, stage unlock_frame ready) =
               Some (BeforeClear, rtc_loop_body (stage unlock_frame ready))"
    by (simp add: stage_def)
  have a: "observe (run 16 demo_checksum [MainStep] (AtEntry, stage unlock_frame ready)) =
             Some (BeforeClear, True, 0x0304, 0, 0xA4A3A2A1)"
    unfolding one unlock_body
    by (simp add: observe_def stage_def ready_def power_on_def unlock_frame_def demo_frame_def
        offsets_values load32_def store32_def)
  have two: "run 16 demo_checksum
              ([MainStep, Interrupt 0x00018000 (Some lock_frame), MainStep] @
               [MainStep, MainStep])
              (AtEntry, stage unlock_frame ready) = Some (AtEntry, lost_state)"
    unfolding run_append interrupted_pass
    by (simp only: option.case run_pass rtc_loop_idle [OF lost_state_idle])
  have b: "observe (Some (AtEntry, lost_state)) = Some (AtEntry, False, 0x0303, 0, 0xA4A3A2A1)"
    by (simp add: observe_def lost_state_def stage_def ready_def power_on_def lock_frame_def
        demo_frame_def offsets_values load32_def store32_def)
  from a b show ?thesis unfolding two by simp
qed

text \<open>
  C9, amended. On each pass in which the engine finds the flag set, it interprets the
  staged frame first and clears the flag as the last statement of the pass. A frame with a
  valid checksum staged by the interrupt handler between the interpretation and the
  clearing is not kept for the next pass: it overwrites the staging buffer, its flag is
  cleared with the pass, shared memory is as the first frame's processing left it, and the
  next pass does nothing.
\<close>

theorem rtc_loop_clears_flag_last:
  assumes "lastProtocolValid s" and "addr AND 0x00010000 \<noteq> 0"
    and "final_checksum frame = ck frame"
    and "run M ck [MainStep, Interrupt addr (Some frame), MainStep] (AtEntry, s) = Some (pc, s')"
  shows "step M ck MainStep (AtEntry, s) = Some (BeforeClear, rtc_loop_body s) \<and>
         lastProtocolValid (rtc_loop_body s) \<and>
         run M ck [MainStep, MainStep] (AtEntry, s) = Some (AtEntry, rtc_loop s) \<and>
         pc = AtEntry \<and>
         command_id (lastProtocol s') = command_id frame \<and>
         \<not> lastProtocolValid s' \<and>
         ram s' = ram (rtc_loop_body s) \<and>
         rtc_loop s' = s'"
proof -
  have first: "step M ck MainStep (AtEntry, s) = Some (BeforeClear, rtc_loop_body s)"
    using assms(1) by simp
  from assms(4) first obtain s1 where
    irq: "rtc_dma_irq_handler_lookup M ck addr (Some frame) (rtc_loop_body s) = Some s1"
    and fin: "pc = AtEntry" "s' = rtc_loop_clear s1"
    by (auto split: option.splits)
  have st: "lastProtocolValid s1 \<and> command_id (lastProtocol s1) = command_id frame"
    using assms(2,3) irq by (rule irq_stages)
  have rm: "ram s1 = ram (rtc_loop_body s)" using irq_flag [OF irq] by simp
  have idle: "\<not> lastProtocolValid s'" by (simp add: fin rtc_loop_clear_def)
  show ?thesis
    using first assms(1) st rm idle rtc_loop_idle [OF idle]
    by (simp add: fin rtc_loop_clear_def rtc_loop_body_flag rtc_loop_def)
qed

theorem rtc_loop_clears_flag_last_witness:
  "lastProtocolValid (stage unlock_frame ready) \<and>
   (0x00018000 :: u32) AND 0x00010000 \<noteq> 0 \<and>
   final_checksum lock_frame = demo_checksum lock_frame \<and>
   run 16 demo_checksum [MainStep, Interrupt 0x00018000 (Some lock_frame), MainStep]
     (AtEntry, stage unlock_frame ready) = Some (AtEntry, lost_state) \<and>
   command_id (lastProtocol lost_state) = command_id lock_frame \<and>
   \<not> lastProtocolValid lost_state \<and>
   rtc_loop lost_state = lost_state"
proof -
  have a: "lastProtocolValid (stage unlock_frame ready)" by (simp add: stage_def)
  have b: "(0x00018000 :: u32) AND 0x00010000 \<noteq> 0" by simp
  have c: "final_checksum lock_frame = demo_checksum lock_frame"
    by (simp add: lock_frame_def demo_frame_def demo_checksum_def)
  note t = rtc_loop_clears_flag_last [OF a b c interrupted_pass]
  from t have d: "command_id (lastProtocol lost_state) = command_id lock_frame"
    and e: "\<not> lastProtocolValid lost_state" and f: "rtc_loop lost_state = lost_state"
    by blast+
  from a b c interrupted_pass d e f show ?thesis by blast
qed

section \<open>Results: the NTP synchronizer\<close>

text \<open>
  C4. The claim: the receive handler discards a datagram unless its length is 48, its
  source address and port match the resolved NTP server, its mode is 4 and its stratum is
  not 0. The handler compares the source port with the constant \<open>NTP_DEFAULT_PORT\<close>,
  while the request goes to the configured port \<open>ntpServerPort\<close>. With the server
  configured on port 1234: the request is sent to port 1234, the server's reply from port
  1234 is discarded, and a datagram from port 123 of the same address, which does not
  match the server's port, is accepted and sets ClockState and the hardware clock. (With
  the port read as 123 the discard property holds: lemma \<open>ntpRecvCB_discards\<close>.)
\<close>

theorem ntpRecvCB_accepts_default_port:
  "ntpServerPort custom_port = 1234 \<and>
   udp_out (set_internal_rtc True True custom_port) =
     [(0xC0A80001, 1234, 0x1b # replicate 47 0)] \<and>
   ntpRecvCB gmtime_civil (Some ntp_reply) 0xC0A80001 1234 custom_port = custom_port \<and>
   rtcTime custom_port = \<lparr>year = 0, month = 0, day = 0, dotw = 0, hour = 0, min_t = 0, sec = 0\<rparr> \<and>
   hw_rtc custom_port = None \<and>
   rtcTime (ntpRecvCB gmtime_civil (Some ntp_reply) 0xC0A80001 123 custom_port) = nov_2023 \<and>
   hw_rtc (ntpRecvCB gmtime_civil (Some ntp_reply) 0xC0A80001 123 custom_port) = Some nov_2023"
proof -
  have a: "ntp_ipaddr (netTime custom_port) = 0xC0A80001" "utcOffsetSeconds custom_port = 0"
    by (simp_all add: custom_port_def power_on_def)
  have b: "ntpRecvCB gmtime_civil (Some ntp_reply) 0xC0A80001 1234 custom_port = custom_port"
    by (rule ntpRecvCB_discards) (simp add: NTP_DEFAULT_PORT_def)
  have c: "udp_out (set_internal_rtc True True custom_port) =
             [(0xC0A80001, 1234, 0x1b # replicate 47 0)]"
    by (simp add: set_internal_rtc_def custom_port_def power_on_def NTP_MSG_LEN_def)
  show ?thesis
    unfolding ntpRecvCB_reply [OF a] b c
    by (simp add: custom_port_def power_on_def)
qed

theorem ntpRecvCB_accepts_default_port_witness:
  "ntpServerPort custom_port = 1234 \<and>
   length ntp_reply = 48 \<and>
   rtcTime (ntpRecvCB gmtime_civil (Some ntp_reply) 0xC0A80001 123 custom_port) = nov_2023 \<and>
   hw_rtc (ntpRecvCB gmtime_civil (Some ntp_reply) 0xC0A80001 123 custom_port) = Some nov_2023"
  using ntpRecvCB_accepts_default_port ntp_reply_fields(1) by blast




end
